theory Spec2Isabelle
  imports Complex_Main "HOL-Library.AList"
begin

section \<open>Python values and exceptions\<close>

text \<open>
  The session controller of \<^verbatim>\<open>src/worker/handler.py\<close> is embedded as pure functions over
  an explicit handler state. Values that cross the channel are the atoms of \<open>pyval\<close>; a
  \<^verbatim>\<open>bytes\<close> object is a list of \<open>char\<close> (an Isabelle character is one byte), a
  \<^verbatim>\<open>float\<close> is the rational it approximates, a \<^verbatim>\<open>datetime\<close> is its number of
  microseconds since the epoch.
\<close>

datatype pyval =
    PyNone
  | PyBool bool
  | PyInt int
  | PyFloat rat
  | PyStr string
  | PyBytes "char list"
  | PyDatetime int

text \<open>
  Exceptions are values. \<open>TypeError\<close> and \<open>ValueError\<close> carry their message, \<open>KeyError\<close>
  the key that was missed, \<open>AttributeError\<close> the type of the object and the attribute
  that was read; \<open>Raised\<close> is any exception of the media engine, passed through.
\<close>

datatype exn =
    TypeError string
  | KeyError pyval
  | AttributeError string string
  | ValueError string
  | Raised string

record session_description =
  sd_sdp :: pyval
  sd_type :: pyval

text \<open>
  \<^verbatim>\<open>request.data\<close> and \<^verbatim>\<open>notification.data\<close>: an atom, a mapping with string keys (in
  insertion order), or an \<^verbatim>\<open>RTCSessionDescription\<close> instance.
\<close>

datatype pyobj =
    Atom pyval
  | Dict "(string \<times> pyval) list"
  | SessionDescription session_description

fun type_name :: "pyval \<Rightarrow> string" where
  "type_name PyNone = ''NoneType''"
| "type_name (PyBool b) = ''bool''"
| "type_name (PyInt i) = ''int''"
| "type_name (PyFloat r) = ''float''"
| "type_name (PyStr s) = ''str''"
| "type_name (PyBytes bs) = ''bytes''"
| "type_name (PyDatetime t) = ''datetime.datetime''"

fun obj_type_name :: "pyobj \<Rightarrow> string" where
  "obj_type_name (Atom a) = type_name a"
| "obj_type_name (Dict kw) = ''dict''"
| "obj_type_name (SessionDescription d) = ''RTCSessionDescription''"

text \<open>\<^verbatim>\<open>data.get(key)\<close>: \<^verbatim>\<open>None\<close> for a missing key; only a mapping has the method.\<close>

fun py_get :: "pyobj \<Rightarrow> string \<Rightarrow> exn + pyval" where
  "py_get (Dict kw) k = Inr (case map_of kw k of None \<Rightarrow> PyNone | Some v \<Rightarrow> v)"
| "py_get ob k = Inl (AttributeError (obj_type_name ob) ''get'')"

text \<open>\<^verbatim>\<open>data[key]\<close> with a string key: a mapping raises \<^verbatim>\<open>KeyError\<close> on a miss.\<close>

definition quoted :: "string \<Rightarrow> string" where
  "quoted s = [CHR 0x27] @ s @ [CHR 0x27]"

fun py_getitem :: "pyobj \<Rightarrow> string \<Rightarrow> exn + pyval" where
  "py_getitem (Dict kw) k = (case map_of kw k of None \<Rightarrow> Inl (KeyError (PyStr k)) | Some v \<Rightarrow> Inr v)"
| "py_getitem (Atom (PyStr s)) k = Inl (TypeError ''string indices must be integers'')"
| "py_getitem (Atom (PyBytes bs)) k =
     Inl (TypeError ''byte indices must be integers or slices, not str'')"
| "py_getitem ob k = Inl (TypeError (quoted (obj_type_name ob) @ '' object is not subscriptable''))"

text \<open>
  The registries are dictionaries in insertion order: association lists with
  \<open>AList.update\<close> (an existing key keeps its place, a new key goes last) and
  \<open>AList.delete\<close>. \<^verbatim>\<open>d[key]\<close> and \<^verbatim>\<open>del d[key]\<close> raise \<^verbatim>\<open>KeyError\<close> on a miss.
\<close>

definition py_lookup :: "('k \<times> 'v) list \<Rightarrow> 'k \<Rightarrow> pyval \<Rightarrow> exn + 'v" where
  "py_lookup d k shown = (case map_of d k of None \<Rightarrow> Inl (KeyError shown) | Some v \<Rightarrow> Inr v)"

definition py_del :: "('k \<times> 'v) list \<Rightarrow> 'k \<Rightarrow> pyval \<Rightarrow> exn + ('k \<times> 'v) list" where
  "py_del d k shown = (case map_of d k of None \<Rightarrow> Inl (KeyError shown) | Some v \<Rightarrow> Inr (AList.delete k d))"

text \<open>
  The transceiver registry is keyed by track identifiers, which are strings
  (\<^verbatim>\<open>Dict[str, RTCRtpTransceiver]\<close>); a \<^verbatim>\<open>trackId\<close> of the request that is not a string
  equals none of its keys.
\<close>

fun str_key :: "pyval \<Rightarrow> string option" where
  "str_key (PyStr s) = Some s"
| "str_key v = None"

definition lookup_by_pyval :: "(string \<times> 'v) list \<Rightarrow> pyval \<Rightarrow> exn + 'v" where
  "lookup_by_pyval d k =
     (case str_key k of None \<Rightarrow> Inl (KeyError k) | Some s \<Rightarrow> py_lookup d s k)"

definition del_by_pyval :: "(string \<times> 'v) list \<Rightarrow> pyval \<Rightarrow> exn + (string \<times> 'v) list" where
  "del_by_pyval d k =
     (case str_key k of None \<Rightarrow> Inl (KeyError k) | Some s \<Rightarrow> py_del d s k)"

definition opt_str :: "string option \<Rightarrow> pyval" where
  "opt_str s = (case s of None \<Rightarrow> PyNone | Some t \<Rightarrow> PyStr t)"

section \<open>base64 and the text of a bytes object\<close>

definition b64alphabet :: string where
  "b64alphabet = ''ABCDEFGHIJKLMNOPQRSTUVWXYZabcdefghijklmnopqrstuvwxyz0123456789+/''"

definition b64char :: "nat \<Rightarrow> char" where
  "b64char i = b64alphabet ! (i mod 64)"

text \<open>\<^verbatim>\<open>base64.b64encode\<close>: three bytes give four characters, the tail is padded with \<open>=\<close>.\<close>

fun b64encode :: "char list \<Rightarrow> char list" where
  "b64encode (a # b # c # rest) =
     (let n = of_char a * 65536 + of_char b * 256 + (of_char c :: nat)
      in [b64char (n div 262144), b64char (n div 4096), b64char (n div 64), b64char n])
     @ b64encode rest"
| "b64encode [a, b] =
     (let n = of_char a * 1024 + (of_char b :: nat) * 4
      in [b64char (n div 4096), b64char (n div 64), b64char n, CHR ''=''])"
| "b64encode [a] =
     (let n = (of_char a :: nat) * 16
      in [b64char (n div 64), b64char n, CHR ''='', CHR ''=''])"
| "b64encode [] = []"

text \<open>
  \<^verbatim>\<open>str(b)\<close> of a bytes object is its \<^verbatim>\<open>repr\<close>: the letter \<open>b\<close>, a quote, the bytes with
  escapes, the quote. The quote is the double quote when the bytes hold a single quote
  and no double quote.
\<close>

definition hexdigit :: "nat \<Rightarrow> char" where
  "hexdigit i = ''0123456789abcdef'' ! (i mod 16)"

definition repr_byte :: "char \<Rightarrow> char \<Rightarrow> string" where
  "repr_byte q c =
     (if c = q \<or> c = CHR 0x5C then [CHR 0x5C, c]
      else if c = CHR 0x09 then [CHR 0x5C, CHR ''t'']
      else if c = CHR 0x0A then [CHR 0x5C, CHR ''n'']
      else if c = CHR 0x0D then [CHR 0x5C, CHR ''r'']
      else if (of_char c :: nat) < 32 \<or> 127 \<le> (of_char c :: nat)
        then [CHR 0x5C, CHR ''x'', hexdigit (of_char c div 16), hexdigit (of_char c)]
      else [c])"

definition str_of_bytes :: "char list \<Rightarrow> string" where
  "str_of_bytes bs =
     (let q = (if CHR 0x27 \<in> set bs \<and> CHR 0x22 \<notin> set bs then CHR 0x22 else CHR 0x27)
      in [CHR ''b'', q] @ concat (map (repr_byte q) bs) @ [q])"

section \<open>Statistics serializer\<close>

text \<open>
  An entry of a statistics report is an \<^verbatim>\<open>RTCStats\<close> object: the three fields of the base
  class, and the fields of its own class by name. Reading a field the object does not
  have raises \<^verbatim>\<open>AttributeError\<close>.
\<close>

record rtc_stats =
  st_timestamp :: int
  st_type :: string
  st_id :: string
  st_fields :: "(string \<times> pyval) list"

type_synonym serialized = "(string \<times> pyval) list"

type_synonym stats_report = "(string \<times> rtc_stats) list"

text \<open>\<^verbatim>\<open>dt.timestamp()\<close>: seconds since the epoch.\<close>

definition datetime_timestamp :: "int \<Rightarrow> pyval" where
  "datetime_timestamp us = PyFloat (of_int us / 1000000)"

definition stat_attr :: "rtc_stats \<Rightarrow> string \<Rightarrow> exn + pyval" where
  "stat_attr s name =
     (case map_of (st_fields s) name of
        None \<Rightarrow> Inl (AttributeError ''RTCStats'' name)
      | Some v \<Rightarrow> Inr v)"

text \<open>
  The entries \<^verbatim>\<open>"name": stats.name\<close> of a dictionary display, evaluated left to right:
  the first field that is missing raises.
\<close>

fun read_attrs :: "rtc_stats \<Rightarrow> string list \<Rightarrow> exn + serialized" where
  "read_attrs s [] = Inr []"
| "read_attrs s (name # names) =
     (case stat_attr s name of
        Inl e \<Rightarrow> Inl e
      | Inr v \<Rightarrow> (case read_attrs s names of Inl e \<Rightarrow> Inl e | Inr rest \<Rightarrow> Inr ((name, v) # rest)))"

definition base_entries :: "rtc_stats \<Rightarrow> serialized" where
  "base_entries s =
     [(''timestamp'', datetime_timestamp (st_timestamp s)),
      (''type'', PyStr (st_type s)),
      (''id'', PyStr (st_id s))]"

definition serializeInboundStats :: "rtc_stats \<Rightarrow> exn + serialized" where
  "serializeInboundStats s =
     (case read_attrs s [''ssrc'', ''kind'', ''transportId'',
                         ''packetsReceived'', ''packetsLost'', ''jitter''] of
        Inl e \<Rightarrow> Inl e
      | Inr fs \<Rightarrow> Inr (base_entries s @ fs))"

definition serializeOutboundStats :: "rtc_stats \<Rightarrow> exn + serialized" where
  "serializeOutboundStats s =
     (case read_attrs s [''ssrc'', ''kind'', ''transportId'',
                         ''packetsSent'', ''bytesSent'', ''trackId''] of
        Inl e \<Rightarrow> Inl e
      | Inr fs \<Rightarrow> Inr (base_entries s @ fs))"

definition serializeRemoteInboundStats :: "rtc_stats \<Rightarrow> exn + serialized" where
  "serializeRemoteInboundStats s =
     (case read_attrs s [''ssrc'', ''kind'', ''transportId'',
                         ''packetsReceived'', ''packetsLost'', ''jitter'',
                         ''roundTripTime'', ''fractionLost''] of
        Inl e \<Rightarrow> Inl e
      | Inr fs \<Rightarrow> Inr (base_entries s @ fs))"

text \<open>\<^verbatim>\<open>stats.remoteTimestamp.timestamp()\<close>: only a datetime has the method.\<close>

definition serializeRemoteOutboundStats :: "rtc_stats \<Rightarrow> exn + serialized" where
  "serializeRemoteOutboundStats s =
     (case read_attrs s [''ssrc'', ''kind'', ''transportId'', ''packetsSent'', ''bytesSent''] of
        Inl e \<Rightarrow> Inl e
      | Inr fs \<Rightarrow>
          (case stat_attr s ''remoteTimestamp'' of
             Inl e \<Rightarrow> Inl e
           | Inr (PyDatetime us) \<Rightarrow>
               Inr (base_entries s @ fs @ [(''remoteTimestamp'', datetime_timestamp us)])
           | Inr v \<Rightarrow> Inl (AttributeError (type_name v) ''timestamp'')))"

definition serializeTransportStats :: "rtc_stats \<Rightarrow> exn + serialized" where
  "serializeTransportStats s =
     (case read_attrs s [''packetsSent'', ''packetsReceived'', ''bytesSent'',
                         ''bytesReceived'', ''iceRole'', ''dtlsState''] of
        Inl e \<Rightarrow> Inl e
      | Inr fs \<Rightarrow> Inr (base_entries s @ fs))"

text \<open>
  The iteration \<^verbatim>\<open>for key in stats\<close> of each of the three statistics requests:
  \<^verbatim>\<open>result[key]\<close> is assigned for the types the request serializes, an entry of another type
  is skipped.
\<close>

fun transportStats_loop :: "stats_report \<Rightarrow> (string \<times> serialized) list \<Rightarrow> exn + (string \<times> serialized) list" where
  "transportStats_loop [] result = Inr result"
| "transportStats_loop ((key, s) # rest) result =
     (if st_type s = ''inbound-rtp'' then
        (case serializeInboundStats s of
           Inl e \<Rightarrow> Inl e | Inr v \<Rightarrow> transportStats_loop rest (AList.update key v result))
      else if st_type s = ''outbound-rtp'' then
        (case serializeOutboundStats s of
           Inl e \<Rightarrow> Inl e | Inr v \<Rightarrow> transportStats_loop rest (AList.update key v result))
      else if st_type s = ''remote-inbound-rtp'' then
        (case serializeRemoteInboundStats s of
           Inl e \<Rightarrow> Inl e | Inr v \<Rightarrow> transportStats_loop rest (AList.update key v result))
      else if st_type s = ''remote-outbound-rtp'' then
        (case serializeRemoteOutboundStats s of
           Inl e \<Rightarrow> Inl e | Inr v \<Rightarrow> transportStats_loop rest (AList.update key v result))
      else if st_type s = ''transport'' then
        (case serializeTransportStats s of
           Inl e \<Rightarrow> Inl e | Inr v \<Rightarrow> transportStats_loop rest (AList.update key v result))
      else transportStats_loop rest result)"

fun senderStats_loop :: "stats_report \<Rightarrow> (string \<times> serialized) list \<Rightarrow> exn + (string \<times> serialized) list" where
  "senderStats_loop [] result = Inr result"
| "senderStats_loop ((key, s) # rest) result =
     (if st_type s = ''outbound-rtp'' then
        (case serializeOutboundStats s of
           Inl e \<Rightarrow> Inl e | Inr v \<Rightarrow> senderStats_loop rest (AList.update key v result))
      else if st_type s = ''remote-inbound-rtp'' then
        (case serializeRemoteInboundStats s of
           Inl e \<Rightarrow> Inl e | Inr v \<Rightarrow> senderStats_loop rest (AList.update key v result))
      else if st_type s = ''transport'' then
        (case serializeTransportStats s of
           Inl e \<Rightarrow> Inl e | Inr v \<Rightarrow> senderStats_loop rest (AList.update key v result))
      else senderStats_loop rest result)"

fun receiverStats_loop :: "stats_report \<Rightarrow> (string \<times> serialized) list \<Rightarrow> exn + (string \<times> serialized) list" where
  "receiverStats_loop [] result = Inr result"
| "receiverStats_loop ((key, s) # rest) result =
     (if st_type s = ''inbound-rtp'' then
        (case serializeInboundStats s of
           Inl e \<Rightarrow> Inl e | Inr v \<Rightarrow> receiverStats_loop rest (AList.update key v result))
      else if st_type s = ''remote-outbound-rtp'' then
        (case serializeRemoteOutboundStats s of
           Inl e \<Rightarrow> Inl e | Inr v \<Rightarrow> receiverStats_loop rest (AList.update key v result))
      else if st_type s = ''transport'' then
        (case serializeTransportStats s of
           Inl e \<Rightarrow> Inl e | Inr v \<Rightarrow> receiverStats_loop rest (AList.update key v result))
      else receiverStats_loop rest result)"

section \<open>The media engine, the track source and the channel\<close>

record track =
  trk_id :: string
  trk_kind :: string

text \<open>The keyword arguments of \<^verbatim>\<open>RTCPeerConnection.createDataChannel\<close>.\<close>

record dc_options =
  opt_negotiated :: bool
  opt_id :: pyval
  opt_ordered :: pyval
  opt_maxPacketLifeTime :: pyval
  opt_maxRetransmits :: pyval
  opt_label :: pyval
  opt_protocol :: pyval

text \<open>The attributes of an \<^verbatim>\<open>RTCDataChannel\<close> that the handler reads.\<close>

record data_channel =
  ch_id :: pyval
  ch_ordered :: pyval
  ch_maxPacketLifeTime :: pyval
  ch_maxRetransmits :: pyval
  ch_label :: pyval
  ch_protocol :: pyval
  ch_readyState :: pyval
  ch_bufferedAmount :: pyval
  ch_bufferedAmountLowThreshold :: pyval

text \<open>
  The handler's collaborators are outside the repository: the aiortc peer connection,
  the track source \<^verbatim>\<open>getTrack\<close> and \<^verbatim>\<open>base64.b64decode\<close>. They are parameters of the
  model, over any type \<open>'e\<close> of engine states. Transceivers and data channels are
  objects of the engine, named by a number; a call returns the engine's next state and
  either the exception it raised or its result.
\<close>

record 'e env =
  getTrack :: "pyval \<Rightarrow> pyval \<Rightarrow> exn + track option"
  b64decode :: "pyobj \<Rightarrow> exn + char list"
  new_RTCSessionDescription :: "(string \<times> pyval) list \<Rightarrow> exn + session_description"
  pc_localDescription :: "'e \<Rightarrow> session_description option"
  pc_signalingState :: "'e \<Rightarrow> pyval"
  pc_iceGatheringState :: "'e \<Rightarrow> pyval"
  pc_iceConnectionState :: "'e \<Rightarrow> pyval"
  pc_addTransceiver :: "track option \<Rightarrow> 'e \<Rightarrow> 'e \<times> (exn + nat)"
  pc_getTransceivers :: "'e \<Rightarrow> nat list"
  pc_setLocalDescription :: "session_description \<Rightarrow> 'e \<Rightarrow> 'e \<times> (exn + unit)"
  pc_setRemoteDescription :: "session_description \<Rightarrow> 'e \<Rightarrow> 'e \<times> (exn + unit)"
  pc_createOffer :: "'e \<Rightarrow> 'e \<times> (exn + session_description)"
  pc_createAnswer :: "'e \<Rightarrow> 'e \<times> (exn + session_description)"
  pc_getStats :: "'e \<Rightarrow> 'e \<times> (exn + stats_report)"
  pc_createDataChannel :: "dc_options \<Rightarrow> 'e \<Rightarrow> 'e \<times> (exn + nat)"
  pc_close :: "'e \<Rightarrow> 'e \<times> (exn + unit)"
  tr_mid :: "'e \<Rightarrow> nat \<Rightarrow> string option"
  tr_set_direction :: "nat \<Rightarrow> string \<Rightarrow> 'e \<Rightarrow> 'e \<times> (exn + unit)"
  sender_replaceTrack :: "nat \<Rightarrow> track option \<Rightarrow> 'e \<Rightarrow> 'e \<times> (exn + unit)"
  sender_getStats :: "nat \<Rightarrow> 'e \<Rightarrow> 'e \<times> (exn + stats_report)"
  receiver_getStats :: "nat \<Rightarrow> 'e \<Rightarrow> 'e \<times> (exn + stats_report)"
  dc_attrs :: "'e \<Rightarrow> nat \<Rightarrow> data_channel"
  dc_send :: "nat \<Rightarrow> pyobj \<Rightarrow> 'e \<Rightarrow> 'e \<times> (exn + unit)"
  dc_close :: "nat \<Rightarrow> 'e \<Rightarrow> 'e \<times> (exn + unit)"
  dc_set_bufferedAmountLowThreshold :: "nat \<Rightarrow> pyobj \<Rightarrow> 'e \<Rightarrow> 'e \<times> (exn + unit)"

text \<open>A call \<^verbatim>\<open>channel.notify(targetId, event, data)\<close>; \<^verbatim>\<open>data\<close> is \<^verbatim>\<open>None\<close> when not given.\<close>

record outnote =
  nt_target :: "string option"
  nt_event :: string
  nt_data :: pyval

section \<open>The handler\<close>

text \<open>
  The state of a \<^verbatim>\<open>Handler\<close>: its peer connection, the two registries, the closures
  registered on data channels (the channel object and the \<^verbatim>\<open>dataChannelId\<close> each closure
  captured), whether the buffered-amount task is still scheduled, and the notifications
  sent over the channel so far, oldest first. Data channels are registered under
  \<^verbatim>\<open>internal.get("dataChannelId")\<close>, a string or \<^verbatim>\<open>None\<close>.
\<close>

record 'e handler =
  handlerId :: string
  pc :: 'e
  transceivers :: "(string \<times> nat) list"
  dataChannels :: "(string option \<times> nat) list"
  listeners :: "(nat \<times> string option) list"
  pollerRunning :: bool
  outbox :: "outnote list"

text \<open>
  A request and a notification of the channel. \<^verbatim>\<open>internal\<close> is the dictionary of routing
  identifiers, which are strings (the registries are declared \<^verbatim>\<open>Dict[str, ...]\<close>);
  \<^verbatim>\<open>internal.get("dataChannelId")\<close> is \<^verbatim>\<open>None\<close> when the key is missing. \<^verbatim>\<open>Logger\<close> calls
  have no effect on the state and are left out.
\<close>

record request =
  req_method :: string
  req_internal :: "(string \<times> string) list"
  req_data :: pyobj

record notification =
  ntf_event :: string
  ntf_internal :: "(string \<times> string) list"
  ntf_data :: pyobj

text \<open>What a request returns: a value, a dictionary, or a dictionary of serialized statistics.\<close>

datatype pyresult =
    RVal pyval
  | RDict "(string \<times> pyval) list"
  | RStats "(string \<times> serialized) list"

definition Handler_init :: "string \<Rightarrow> 'e \<Rightarrow> 'e handler" where
  "Handler_init hid e =
     \<lparr>handlerId = hid, pc = e, transceivers = [], dataChannels = [], listeners = [],
      pollerRunning = True, outbox = []\<rparr>"

definition notify :: "string option \<Rightarrow> string \<Rightarrow> pyval \<Rightarrow> 'e handler \<Rightarrow> 'e handler" where
  "notify target event payload h =
     h\<lparr>outbox := outbox h @ [\<lparr>nt_target = target, nt_event = event, nt_data = payload\<rparr>]\<rparr>"

subsection \<open>Events of the engine\<close>

definition on_signalingstatechange :: "'e env \<Rightarrow> 'e handler \<Rightarrow> 'e handler" where
  "on_signalingstatechange E h =
     notify (Some (handlerId h)) ''signalingstatechange'' (pc_signalingState E (pc h)) h"

definition on_icegatheringstatechange :: "'e env \<Rightarrow> 'e handler \<Rightarrow> 'e handler" where
  "on_icegatheringstatechange E h =
     notify (Some (handlerId h)) ''icegatheringstatechange'' (pc_iceGatheringState E (pc h)) h"

definition on_iceconnectionstatechange :: "'e env \<Rightarrow> 'e handler \<Rightarrow> 'e handler" where
  "on_iceconnectionstatechange E h =
     notify (Some (handlerId h)) ''iceconnectionstatechange'' (pc_iceConnectionState E (pc h)) h"

definition on_open :: "string option \<Rightarrow> 'e handler \<Rightarrow> 'e handler" where
  "on_open dataChannelId h = notify dataChannelId ''open'' PyNone h"

definition on_closing :: "string option \<Rightarrow> 'e handler \<Rightarrow> 'e handler" where
  "on_closing dataChannelId h = notify dataChannelId ''closing'' PyNone h"

text \<open>
  \<^verbatim>\<open>on_close\<close>: the \<^verbatim>\<open>del\<close> raises \<^verbatim>\<open>KeyError\<close> when the identifier is not registered,
  and the \<^verbatim>\<open>except KeyError: pass\<close> ends the closure before its \<^verbatim>\<open>notify\<close>.
\<close>

definition on_close :: "string option \<Rightarrow> 'e handler \<Rightarrow> 'e handler" where
  "on_close dataChannelId h =
     (case py_del (dataChannels h) dataChannelId (opt_str dataChannelId) of
        Inl e \<Rightarrow> h
      | Inr d \<Rightarrow> notify dataChannelId ''close'' PyNone (h\<lparr>dataChannels := d\<rparr>))"

text \<open>
  \<^verbatim>\<open>on_message\<close>: two \<^verbatim>\<open>isinstance\<close> tests one after the other; a message that is neither
  \<^verbatim>\<open>str\<close> nor \<^verbatim>\<open>bytes\<close> sends nothing. The payload of \<open>binary\<close> is
  \<^verbatim>\<open>str(base64.b64encode(message))\<close>.
\<close>

fun on_message :: "string option \<Rightarrow> pyval \<Rightarrow> 'e handler \<Rightarrow> 'e handler" where
  "on_message dataChannelId (PyStr message) h = notify dataChannelId ''message'' (PyStr message) h"
| "on_message dataChannelId (PyBytes message) h =
     (let message_bytes = b64encode message
      in notify dataChannelId ''binary'' (PyStr (str_of_bytes message_bytes)) h)"
| "on_message dataChannelId message h = h"

definition on_bufferedamountlow :: "string option \<Rightarrow> 'e handler \<Rightarrow> 'e handler" where
  "on_bufferedamountlow dataChannelId h = notify dataChannelId ''bufferedamountlow'' PyNone h"

text \<open>
  One pass of the \<^verbatim>\<open>for\<close> loop of \<^verbatim>\<open>checkDataChannelsBufferedAmount\<close> over the items of
  the registry, after the task's \<^verbatim>\<open>sleep(1)\<close>. The pass is taken as one step: no other
  task changes the registry or the engine between two of its notifications.
\<close>

fun bufferedAmount_loop :: "'e env \<Rightarrow> (string option \<times> nat) list \<Rightarrow> 'e handler \<Rightarrow> 'e handler" where
  "bufferedAmount_loop E [] h = h"
| "bufferedAmount_loop E ((dataChannelId, dataChannel) # rest) h =
     bufferedAmount_loop E rest
       (notify dataChannelId ''bufferedamount''
          (ch_bufferedAmount (dc_attrs E (pc h) dataChannel)) h)"

definition checkDataChannelsBufferedAmount :: "'e env \<Rightarrow> 'e handler \<Rightarrow> 'e handler" where
  "checkDataChannelsBufferedAmount E h = bufferedAmount_loop E (dataChannels h) h"

subsection \<open>Requests\<close>

definition req_getLocalDescription :: "'e env \<Rightarrow> 'e handler \<Rightarrow> 'e handler \<times> (exn + pyresult)" where
  "req_getLocalDescription E h =
     (case pc_localDescription E (pc h) of
        None \<Rightarrow> (h, Inr (RVal PyNone))
      | Some localDescription \<Rightarrow>
          (h, Inr (RDict [(''type'', sd_type localDescription), (''sdp'', sd_sdp localDescription)])))"

definition req_addTrack :: "'e env \<Rightarrow> 'e handler \<Rightarrow> pyobj \<Rightarrow> 'e handler \<times> (exn + pyresult)" where
  "req_addTrack E h data =
     (case py_getitem data ''playerId'' of
        Inl e \<Rightarrow> (h, Inl e)
      | Inr playerId \<Rightarrow>
     (case py_getitem data ''kind'' of
        Inl e \<Rightarrow> (h, Inl e)
      | Inr kind \<Rightarrow>
     (case getTrack E playerId kind of
        Inl e \<Rightarrow> (h, Inl e)
      | Inr trk \<Rightarrow>
     (case pc_addTransceiver E trk (pc h) of
        (e1, Inl e) \<Rightarrow> (h\<lparr>pc := e1\<rparr>, Inl e)
      | (e1, Inr transceiver) \<Rightarrow>
     (case trk of
        None \<Rightarrow> (h\<lparr>pc := e1\<rparr>, Inl (AttributeError ''NoneType'' ''id''))
      | Some t \<Rightarrow>
          (h\<lparr>pc := e1, transceivers := AList.update (trk_id t) transceiver (transceivers h)\<rparr>,
           Inr (RDict [(''trackId'', PyStr (trk_id t))])))))))"

definition req_removeTrack :: "'e env \<Rightarrow> 'e handler \<Rightarrow> pyobj \<Rightarrow> 'e handler \<times> (exn + pyresult)" where
  "req_removeTrack E h data =
     (case py_get data ''trackId'' of
        Inl e \<Rightarrow> (h, Inl e)
      | Inr trackId \<Rightarrow>
     if trackId = PyNone then (h, Inl (TypeError ''missing trackId''))
     else
     (case lookup_by_pyval (transceivers h) trackId of
        Inl e \<Rightarrow> (h, Inl e)
      | Inr transceiver \<Rightarrow>
     (case tr_set_direction E transceiver ''inactive'' (pc h) of
        (e1, Inl e) \<Rightarrow> (h\<lparr>pc := e1\<rparr>, Inl e)
      | (e1, Inr u) \<Rightarrow>
     (case sender_replaceTrack E transceiver None e1 of
        (e2, Inl e) \<Rightarrow> (h\<lparr>pc := e2\<rparr>, Inl e)
      | (e2, Inr u) \<Rightarrow>
     (case del_by_pyval (transceivers h) trackId of
        Inl e \<Rightarrow> (h\<lparr>pc := e2\<rparr>, Inl e)
      | Inr d \<Rightarrow> (h\<lparr>pc := e2, transceivers := d\<rparr>, Inr (RVal PyNone)))))))"

text \<open>
  \<^verbatim>\<open>RTCSessionDescription(**data)\<close>: unpacking needs a mapping; the constructor itself is
  the engine library's.
\<close>

fun unpack_RTCSessionDescription :: "'e env \<Rightarrow> pyobj \<Rightarrow> exn + session_description" where
  "unpack_RTCSessionDescription E (Dict kw) = new_RTCSessionDescription E kw"
| "unpack_RTCSessionDescription E ob =
     Inl (TypeError (''argument after ** must be a mapping, not '' @ obj_type_name ob))"

fun isinstance_RTCSessionDescription :: "pyobj \<Rightarrow> bool" where
  "isinstance_RTCSessionDescription (SessionDescription d) = True"
| "isinstance_RTCSessionDescription ob = False"

definition req_setLocalDescription :: "'e env \<Rightarrow> 'e handler \<Rightarrow> pyobj \<Rightarrow> 'e handler \<times> (exn + pyresult)" where
  "req_setLocalDescription E h data =
     (if isinstance_RTCSessionDescription data
        then (h, Inl (TypeError ''request data not a RTCSessionDescription''))
      else
     (case unpack_RTCSessionDescription E data of
        Inl e \<Rightarrow> (h, Inl e)
      | Inr description \<Rightarrow>
     (case pc_setLocalDescription E description (pc h) of
        (e1, Inl e) \<Rightarrow> (h\<lparr>pc := e1\<rparr>, Inl e)
      | (e1, Inr u) \<Rightarrow> (h\<lparr>pc := e1\<rparr>, Inr (RVal PyNone)))))"

definition req_setRemoteDescription :: "'e env \<Rightarrow> 'e handler \<Rightarrow> pyobj \<Rightarrow> 'e handler \<times> (exn + pyresult)" where
  "req_setRemoteDescription E h data =
     (if isinstance_RTCSessionDescription data
        then (h, Inl (TypeError ''request data not a RTCSessionDescription''))
      else
     (case unpack_RTCSessionDescription E data of
        Inl e \<Rightarrow> (h, Inl e)
      | Inr description \<Rightarrow>
     (case pc_setRemoteDescription E description (pc h) of
        (e1, Inl e) \<Rightarrow> (h\<lparr>pc := e1\<rparr>, Inl e)
      | (e1, Inr u) \<Rightarrow> (h\<lparr>pc := e1\<rparr>, Inr (RVal PyNone)))))"

definition req_createOffer :: "'e env \<Rightarrow> 'e handler \<Rightarrow> 'e handler \<times> (exn + pyresult)" where
  "req_createOffer E h =
     (case pc_createOffer E (pc h) of
        (e1, Inl e) \<Rightarrow> (h\<lparr>pc := e1\<rparr>, Inl e)
      | (e1, Inr offer) \<Rightarrow>
          (h\<lparr>pc := e1\<rparr>, Inr (RDict [(''type'', sd_type offer), (''sdp'', sd_sdp offer)])))"

definition req_createAnswer :: "'e env \<Rightarrow> 'e handler \<Rightarrow> 'e handler \<times> (exn + pyresult)" where
  "req_createAnswer E h =
     (case pc_createAnswer E (pc h) of
        (e1, Inl e) \<Rightarrow> (h\<lparr>pc := e1\<rparr>, Inl e)
      | (e1, Inr answer) \<Rightarrow>
          (h\<lparr>pc := e1\<rparr>, Inr (RDict [(''type'', sd_type answer), (''sdp'', sd_sdp answer)])))"

definition req_getMid :: "'e env \<Rightarrow> 'e handler \<Rightarrow> pyobj \<Rightarrow> 'e handler \<times> (exn + pyresult)" where
  "req_getMid E h data =
     (case py_get data ''trackId'' of
        Inl e \<Rightarrow> (h, Inl e)
      | Inr trackId \<Rightarrow>
     if trackId = PyNone then (h, Inl (TypeError ''missing trackId''))
     else
     (case lookup_by_pyval (transceivers h) trackId of
        Inl e \<Rightarrow> (h, Inl e)
      | Inr transceiver \<Rightarrow> (h, Inr (RVal (opt_str (tr_mid E (pc h) transceiver))))))"

definition req_getTransportStats :: "'e env \<Rightarrow> 'e handler \<Rightarrow> 'e handler \<times> (exn + pyresult)" where
  "req_getTransportStats E h =
     (case pc_getStats E (pc h) of
        (e1, Inl e) \<Rightarrow> (h\<lparr>pc := e1\<rparr>, Inl e)
      | (e1, Inr stats) \<Rightarrow>
     (case transportStats_loop stats [] of
        Inl e \<Rightarrow> (h\<lparr>pc := e1\<rparr>, Inl e)
      | Inr result \<Rightarrow> (h\<lparr>pc := e1\<rparr>, Inr (RStats result))))"

text \<open>
  \<^verbatim>\<open>_getTransceiverByMid\<close>: the first transceiver of the engine's list whose \<^verbatim>\<open>mid\<close> equals
  the argument, \<^verbatim>\<open>None\<close> when there is none.
\<close>

definition getTransceiverByMid :: "'e env \<Rightarrow> 'e handler \<Rightarrow> pyval \<Rightarrow> nat option" where
  "getTransceiverByMid E h mid =
     List.find (\<lambda>x. opt_str (tr_mid E (pc h) x) = mid) (pc_getTransceivers E (pc h))"

text \<open>
  The result of \<^verbatim>\<open>_getTransceiverByMid\<close> is used as it is: \<^verbatim>\<open>transceiver.sender\<close> and
  \<^verbatim>\<open>transceiver.receiver\<close> on \<^verbatim>\<open>None\<close> raise \<^verbatim>\<open>AttributeError\<close>.
\<close>

definition req_getSenderStats :: "'e env \<Rightarrow> 'e handler \<Rightarrow> pyobj \<Rightarrow> 'e handler \<times> (exn + pyresult)" where
  "req_getSenderStats E h data =
     (case py_get data ''mid'' of
        Inl e \<Rightarrow> (h, Inl e)
      | Inr mid \<Rightarrow>
     if mid = PyNone then (h, Inl (TypeError ''missing mid''))
     else
     (case getTransceiverByMid E h mid of
        None \<Rightarrow> (h, Inl (AttributeError ''NoneType'' ''sender''))
      | Some transceiver \<Rightarrow>
     (case sender_getStats E transceiver (pc h) of
        (e1, Inl e) \<Rightarrow> (h\<lparr>pc := e1\<rparr>, Inl e)
      | (e1, Inr stats) \<Rightarrow>
     (case senderStats_loop stats [] of
        Inl e \<Rightarrow> (h\<lparr>pc := e1\<rparr>, Inl e)
      | Inr result \<Rightarrow> (h\<lparr>pc := e1\<rparr>, Inr (RStats result))))))"

definition req_getReceiverStats :: "'e env \<Rightarrow> 'e handler \<Rightarrow> pyobj \<Rightarrow> 'e handler \<times> (exn + pyresult)" where
  "req_getReceiverStats E h data =
     (case py_get data ''mid'' of
        Inl e \<Rightarrow> (h, Inl e)
      | Inr mid \<Rightarrow>
     if mid = PyNone then (h, Inl (TypeError ''missing mid''))
     else
     (case getTransceiverByMid E h mid of
        None \<Rightarrow> (h, Inl (AttributeError ''NoneType'' ''receiver''))
      | Some transceiver \<Rightarrow>
     (case receiver_getStats E transceiver (pc h) of
        (e1, Inl e) \<Rightarrow> (h\<lparr>pc := e1\<rparr>, Inl e)
      | (e1, Inr stats) \<Rightarrow>
     (case receiverStats_loop stats [] of
        Inl e \<Rightarrow> (h\<lparr>pc := e1\<rparr>, Inl e)
      | Inr result \<Rightarrow> (h\<lparr>pc := e1\<rparr>, Inr (RStats result))))))"

text \<open>
  \<^verbatim>\<open>handler.createDataChannel\<close>: the six \<^verbatim>\<open>data.get\<close> reads and the keyword arguments of
  the engine call, \<^verbatim>\<open>negotiated=True\<close> first.
\<close>

definition createDataChannel_kwargs :: "pyobj \<Rightarrow> exn + dc_options" where
  "createDataChannel_kwargs data =
     (case py_get data ''id'' of Inl e \<Rightarrow> Inl e | Inr i \<Rightarrow>
     (case py_get data ''ordered'' of Inl e \<Rightarrow> Inl e | Inr ordered \<Rightarrow>
     (case py_get data ''maxPacketLifeTime'' of Inl e \<Rightarrow> Inl e | Inr maxPacketLifeTime \<Rightarrow>
     (case py_get data ''maxRetransmits'' of Inl e \<Rightarrow> Inl e | Inr maxRetransmits \<Rightarrow>
     (case py_get data ''label'' of Inl e \<Rightarrow> Inl e | Inr label \<Rightarrow>
     (case py_get data ''protocol'' of Inl e \<Rightarrow> Inl e | Inr protocol \<Rightarrow>
        Inr \<lparr>opt_negotiated = True, opt_id = i, opt_ordered = ordered,
             opt_maxPacketLifeTime = maxPacketLifeTime, opt_maxRetransmits = maxRetransmits,
             opt_label = label, opt_protocol = protocol\<rparr>))))))"

definition descriptor :: "data_channel \<Rightarrow> (string \<times> pyval) list" where
  "descriptor dataChannel =
     [(''streamId'', ch_id dataChannel),
      (''ordered'', ch_ordered dataChannel),
      (''maxPacketLifeTime'', ch_maxPacketLifeTime dataChannel),
      (''maxRetransmits'', ch_maxRetransmits dataChannel),
      (''label'', ch_label dataChannel),
      (''protocol'', ch_protocol dataChannel),
      (''readyState'', ch_readyState dataChannel),
      (''bufferedAmount'', ch_bufferedAmount dataChannel),
      (''bufferedAmountLowThreshold'', ch_bufferedAmountLowThreshold dataChannel)]"

definition req_createDataChannel ::
  "'e env \<Rightarrow> 'e handler \<Rightarrow> (string \<times> string) list \<Rightarrow> pyobj \<Rightarrow> 'e handler \<times> (exn + pyresult)" where
  "req_createDataChannel E h internal data =
     (let dataChannelId = map_of internal ''dataChannelId'' in
     (case createDataChannel_kwargs data of
        Inl e \<Rightarrow> (h, Inl e)
      | Inr kwargs \<Rightarrow>
     (case pc_createDataChannel E kwargs (pc h) of
        (e1, Inl e) \<Rightarrow> (h\<lparr>pc := e1\<rparr>, Inl e)
      | (e1, Inr dataChannel) \<Rightarrow>
          (h\<lparr>pc := e1,
             dataChannels := AList.update dataChannelId dataChannel (dataChannels h),
             listeners := listeners h @ [(dataChannel, dataChannelId)]\<rparr>,
           Inr (RDict (descriptor (dc_attrs E e1 dataChannel)))))))"

definition unknown_request :: "string \<Rightarrow> exn" where
  "unknown_request m = TypeError (''unknown request with method '' @ quoted m @ '' received'')"

definition processRequest :: "'e env \<Rightarrow> 'e handler \<Rightarrow> request \<Rightarrow> 'e handler \<times> (exn + pyresult)" where
  "processRequest E h request =
     (if req_method request = ''handler.getLocalDescription'' then req_getLocalDescription E h
      else if req_method request = ''handler.addTrack'' then req_addTrack E h (req_data request)
      else if req_method request = ''handler.removeTrack'' then req_removeTrack E h (req_data request)
      else if req_method request = ''handler.setLocalDescription''
        then req_setLocalDescription E h (req_data request)
      else if req_method request = ''handler.setRemoteDescription''
        then req_setRemoteDescription E h (req_data request)
      else if req_method request = ''handler.createOffer'' then req_createOffer E h
      else if req_method request = ''handler.createAnswer'' then req_createAnswer E h
      else if req_method request = ''handler.getMid'' then req_getMid E h (req_data request)
      else if req_method request = ''handler.getTransportStats'' then req_getTransportStats E h
      else if req_method request = ''handler.getSenderStats''
        then req_getSenderStats E h (req_data request)
      else if req_method request = ''handler.getReceiverStats''
        then req_getReceiverStats E h (req_data request)
      else if req_method request = ''handler.createDataChannel''
        then req_createDataChannel E h (req_internal request) (req_data request)
      else (h, Inl (unknown_request (req_method request))))"

text \<open>The method names the chain of \<^verbatim>\<open>processRequest\<close> compares with, in its order.\<close>

definition request_methods :: "string list" where
  "request_methods =
     [''handler.getLocalDescription'', ''handler.addTrack'', ''handler.removeTrack'',
      ''handler.setLocalDescription'', ''handler.setRemoteDescription'',
      ''handler.createOffer'', ''handler.createAnswer'', ''handler.getMid'',
      ''handler.getTransportStats'', ''handler.getSenderStats'',
      ''handler.getReceiverStats'', ''handler.createDataChannel'']"

subsection \<open>Notifications\<close>

definition ntf_send :: "'e env \<Rightarrow> 'e handler \<Rightarrow> (string \<times> string) list \<Rightarrow> pyobj \<Rightarrow> 'e handler \<times> (exn + unit)" where
  "ntf_send E h internal data =
     (case map_of internal ''dataChannelId'' of
        None \<Rightarrow> (h, Inl (TypeError ''missing dataChannelId''))
      | Some i \<Rightarrow>
     (case py_lookup (dataChannels h) (Some i) (PyStr i) of
        Inl e \<Rightarrow> (h, Inl e)
      | Inr dataChannel \<Rightarrow>
     (case dc_send E dataChannel data (pc h) of
        (e1, Inl e) \<Rightarrow> (h\<lparr>pc := e1\<rparr>, Inl e)
      | (e1, Inr u) \<Rightarrow>
          (notify (Some i) ''bufferedamount'' (ch_bufferedAmount (dc_attrs E e1 dataChannel))
             (h\<lparr>pc := e1\<rparr>),
           Inr ()))))"

definition ntf_sendBinary :: "'e env \<Rightarrow> 'e handler \<Rightarrow> (string \<times> string) list \<Rightarrow> pyobj \<Rightarrow> 'e handler \<times> (exn + unit)" where
  "ntf_sendBinary E h internal data =
     (case map_of internal ''dataChannelId'' of
        None \<Rightarrow> (h, Inl (TypeError ''missing dataChannelId''))
      | Some i \<Rightarrow>
     (case py_lookup (dataChannels h) (Some i) (PyStr i) of
        Inl e \<Rightarrow> (h, Inl e)
      | Inr dataChannel \<Rightarrow>
     (case b64decode E data of
        Inl e \<Rightarrow> (h, Inl e)
      | Inr decoded \<Rightarrow>
     (case dc_send E dataChannel (Atom (PyBytes decoded)) (pc h) of
        (e1, Inl e) \<Rightarrow> (h\<lparr>pc := e1\<rparr>, Inl e)
      | (e1, Inr u) \<Rightarrow>
          (notify (Some i) ''bufferedamount'' (ch_bufferedAmount (dc_attrs E e1 dataChannel))
             (h\<lparr>pc := e1\<rparr>),
           Inr ())))))"

text \<open>
  \<^verbatim>\<open>datachannel.close\<close>: \<^verbatim>\<open>self._dataChannels.get\<close> and the early \<^verbatim>\<open>return\<close>, the \<^verbatim>\<open>del\<close>
  under \<^verbatim>\<open>except KeyError: pass\<close>, then \<^verbatim>\<open>dataChannel.close()\<close>.
\<close>

definition ntf_close :: "'e env \<Rightarrow> 'e handler \<Rightarrow> (string \<times> string) list \<Rightarrow> 'e handler \<times> (exn + unit)" where
  "ntf_close E h internal =
     (case map_of internal ''dataChannelId'' of
        None \<Rightarrow> (h, Inl (TypeError ''missing dataChannelId''))
      | Some i \<Rightarrow>
     (case map_of (dataChannels h) (Some i) of
        None \<Rightarrow> (h, Inr ())
      | Some dataChannel \<Rightarrow>
     (let h1 = (case py_del (dataChannels h) (Some i) (PyStr i) of
                  Inl e \<Rightarrow> h
                | Inr d \<Rightarrow> h\<lparr>dataChannels := d\<rparr>)
      in (case dc_close E dataChannel (pc h1) of
            (e1, Inl e) \<Rightarrow> (h1\<lparr>pc := e1\<rparr>, Inl e)
          | (e1, Inr u) \<Rightarrow> (h1\<lparr>pc := e1\<rparr>, Inr ())))))"

definition ntf_setBufferedAmountLowThreshold ::
  "'e env \<Rightarrow> 'e handler \<Rightarrow> (string \<times> string) list \<Rightarrow> pyobj \<Rightarrow> 'e handler \<times> (exn + unit)" where
  "ntf_setBufferedAmountLowThreshold E h internal data =
     (case map_of internal ''dataChannelId'' of
        None \<Rightarrow> (h, Inl (TypeError ''missing dataChannelId''))
      | Some i \<Rightarrow>
     (case py_lookup (dataChannels h) (Some i) (PyStr i) of
        Inl e \<Rightarrow> (h, Inl e)
      | Inr dataChannel \<Rightarrow>
     (case dc_set_bufferedAmountLowThreshold E dataChannel data (pc h) of
        (e1, Inl e) \<Rightarrow> (h\<lparr>pc := e1\<rparr>, Inl e)
      | (e1, Inr u) \<Rightarrow> (h\<lparr>pc := e1\<rparr>, Inr ()))))"

definition unknown_notification :: "string \<Rightarrow> exn" where
  "unknown_notification ev =
     TypeError (''unknown notification with event '' @ quoted ev @ '' received'')"

text \<open>\<^verbatim>\<open>enableTrack\<close> and \<^verbatim>\<open>disableTrack\<close> only log a warning.\<close>

definition processNotification :: "'e env \<Rightarrow> 'e handler \<Rightarrow> notification \<Rightarrow> 'e handler \<times> (exn + unit)" where
  "processNotification E h notification =
     (if ntf_event notification = ''enableTrack'' then (h, Inr ())
      else if ntf_event notification = ''disableTrack'' then (h, Inr ())
      else if ntf_event notification = ''datachannel.send''
        then ntf_send E h (ntf_internal notification) (ntf_data notification)
      else if ntf_event notification = ''datachannel.sendBinary''
        then ntf_sendBinary E h (ntf_internal notification) (ntf_data notification)
      else if ntf_event notification = ''datachannel.close''
        then ntf_close E h (ntf_internal notification)
      else if ntf_event notification = ''datachannel.setBufferedAmountLowThreshold''
        then ntf_setBufferedAmountLowThreshold E h (ntf_internal notification) (ntf_data notification)
      else (h, Inl (unknown_notification (ntf_event notification))))"

definition notification_events :: "string list" where
  "notification_events =
     [''enableTrack'', ''disableTrack'', ''datachannel.send'', ''datachannel.sendBinary'',
      ''datachannel.close'', ''datachannel.setBufferedAmountLowThreshold'']"

subsection \<open>Runs of a handler\<close>

text \<open>
  Everything runs on one event loop. A run is a list of inputs, each handled to its end
  before the next: a request or a notification from the channel, an event the engine
  emits on the peer connection or on a data channel object, one pass of the
  buffered-amount task, a change of the engine's own state, or \<^verbatim>\<open>Handler.close\<close>.
\<close>

datatype dc_event = Open | Closing | Close | Message pyval | BufferedAmountLow

datatype pc_event = OnTrack | SignalingStateChange | IceGatheringStateChange | IceConnectionStateChange

datatype 'e input =
    Request request
  | Notification notification
  | PcEvent pc_event
  | DcEvent nat dc_event
  | PollerTick
  | EngineInternal "'e \<Rightarrow> 'e"
  | HandlerClose

fun dc_listener :: "dc_event \<Rightarrow> string option \<Rightarrow> 'e handler \<Rightarrow> 'e handler" where
  "dc_listener Open dataChannelId h = on_open dataChannelId h"
| "dc_listener Closing dataChannelId h = on_closing dataChannelId h"
| "dc_listener Close dataChannelId h = on_close dataChannelId h"
| "dc_listener (Message message) dataChannelId h = on_message dataChannelId message h"
| "dc_listener BufferedAmountLow dataChannelId h = on_bufferedamountlow dataChannelId h"

text \<open>
  An event on a data channel object runs the closures \<^verbatim>\<open>createDataChannel\<close> registered on
  that object, in the order of registration, each with the identifier it captured.
\<close>

fun emit_dc :: "(nat \<times> string option) list \<Rightarrow> nat \<Rightarrow> dc_event \<Rightarrow> 'e handler \<Rightarrow> 'e handler" where
  "emit_dc [] obj ev h = h"
| "emit_dc ((obj', dataChannelId) # rest) obj ev h =
     emit_dc rest obj ev (if obj' = obj then dc_listener ev dataChannelId h else h)"

fun emit_pc :: "'e env \<Rightarrow> pc_event \<Rightarrow> 'e handler \<Rightarrow> 'e handler" where
  "emit_pc E OnTrack h = h"
| "emit_pc E SignalingStateChange h = on_signalingstatechange E h"
| "emit_pc E IceGatheringStateChange h = on_icegatheringstatechange E h"
| "emit_pc E IceConnectionStateChange h = on_iceconnectionstatechange E h"

text \<open>\<^verbatim>\<open>Handler.close\<close>: cancel the periodic task, then close the peer connection.\<close>

definition Handler_close :: "'e env \<Rightarrow> 'e handler \<Rightarrow> 'e handler \<times> (exn + unit)" where
  "Handler_close E h =
     (case pc_close E (pc h) of
        (e1, r) \<Rightarrow> (h\<lparr>pollerRunning := False, pc := e1\<rparr>, r))"

fun step :: "'e env \<Rightarrow> 'e handler \<Rightarrow> 'e input \<Rightarrow> 'e handler" where
  "step E h (Request request) = fst (processRequest E h request)"
| "step E h (Notification notification) = fst (processNotification E h notification)"
| "step E h (PcEvent ev) = emit_pc E ev h"
| "step E h (DcEvent obj ev) = emit_dc (listeners h) obj ev h"
| "step E h PollerTick = (if pollerRunning h then checkDataChannelsBufferedAmount E h else h)"
| "step E h (EngineInternal f) = h\<lparr>pc := f (pc h)\<rparr>"
| "step E h HandlerClose = fst (Handler_close E h)"

fun run :: "'e env \<Rightarrow> 'e handler \<Rightarrow> 'e input list \<Rightarrow> 'e handler" where
  "run E h [] = h"
| "run E h (i # rest) = run E (step E h i) rest"

text \<open>
  A registration of an identifier is a \<^verbatim>\<open>handler.createDataChannel\<close> request for it that
  returns its descriptor: the request in which \<^verbatim>\<open>self._dataChannels[dataChannelId]\<close> is
  assigned.
\<close>

fun is_ok :: "'a + 'b \<Rightarrow> bool" where
  "is_ok (Inl e) = False"
| "is_ok (Inr v) = True"

fun registers :: "'e env \<Rightarrow> 'e handler \<Rightarrow> 'e input \<Rightarrow> string option \<Rightarrow> bool" where
  "registers E h (Request request) d =
     (req_method request = ''handler.createDataChannel''
      \<and> map_of (req_internal request) ''dataChannelId'' = d
      \<and> is_ok (snd (processRequest E h request)))"
| "registers E h i d = False"

fun registrations :: "'e env \<Rightarrow> 'e handler \<Rightarrow> 'e input list \<Rightarrow> string option \<Rightarrow> nat" where
  "registrations E h [] d = 0"
| "registrations E h (i # rest) d =
     (if registers E h i d then 1 else 0) + registrations E (step E h i) rest d"

definition is_note :: "string option \<Rightarrow> string \<Rightarrow> outnote \<Rightarrow> bool" where
  "is_note target event n = (nt_target n = target \<and> nt_event n = event)"

definition count_notes :: "string option \<Rightarrow> string \<Rightarrow> 'e handler \<Rightarrow> nat" where
  "count_notes target event h = length (filter (is_note target event) (outbox h))"

definition registered :: "string option \<Rightarrow> 'e handler \<Rightarrow> nat" where
  "registered d h = (if map_of (dataChannels h) d = None then 0 else 1)"

text \<open>The notifications a step appended to the outbox.\<close>

definition emitted :: "'e handler \<Rightarrow> 'e handler \<Rightarrow> outnote list" where
  "emitted h h' = drop (length (outbox h)) (outbox h')"

section \<open>A small engine to run the model on\<close>

text \<open>
  A concrete engine for evaluating the model: its state holds the data channels and the
  transceivers' mids by object number, the closed channels, and the report
  \<^verbatim>\<open>getStats\<close> returns. A created channel takes its attributes from the keyword arguments.
\<close>

record sim =
  sim_channels :: "data_channel list"
  sim_options :: "dc_options list"
  sim_mids :: "string option list"
  sim_stats :: stats_report
  sim_local :: "session_description option"
  sim_closed :: "nat list"

definition sim_attrs :: "sim \<Rightarrow> nat \<Rightarrow> data_channel" where
  "sim_attrs e c =
     (case drop c (sim_channels e) of
        ch # rest \<Rightarrow> ch
      | [] \<Rightarrow> \<lparr>ch_id = PyNone, ch_ordered = PyNone, ch_maxPacketLifeTime = PyNone,
               ch_maxRetransmits = PyNone, ch_label = PyNone, ch_protocol = PyNone,
               ch_readyState = PyStr ''closed'', ch_bufferedAmount = PyInt 0,
               ch_bufferedAmountLowThreshold = PyInt 0\<rparr>)"

definition sim_createDataChannel :: "dc_options \<Rightarrow> sim \<Rightarrow> sim \<times> (exn + nat)" where
  "sim_createDataChannel kw e =
     (e\<lparr>sim_channels := sim_channels e @
          [\<lparr>ch_id = opt_id kw, ch_ordered = opt_ordered kw,
            ch_maxPacketLifeTime = opt_maxPacketLifeTime kw,
            ch_maxRetransmits = opt_maxRetransmits kw, ch_label = opt_label kw,
            ch_protocol = opt_protocol kw, ch_readyState = PyStr ''connecting'',
            ch_bufferedAmount = PyInt 0, ch_bufferedAmountLowThreshold = PyInt 0\<rparr>],
        sim_options := sim_options e @ [kw]\<rparr>,
      Inr (length (sim_channels e)))"

definition sim_new_description :: "(string \<times> pyval) list \<Rightarrow> exn + session_description" where
  "sim_new_description kw =
     (case map_of kw ''sdp'' of
        None \<Rightarrow> Inl (TypeError ''missing sdp'')
      | Some s \<Rightarrow>
     (case map_of kw ''type'' of
        None \<Rightarrow> Inl (TypeError ''missing type'')
      | Some t \<Rightarrow> Inr \<lparr>sd_sdp = s, sd_type = t\<rparr>))"

definition sim_env :: "sim env" where
  "sim_env =
     \<lparr>getTrack = (\<lambda>playerId kind. Inr (Some \<lparr>trk_id = ''track-1'', trk_kind = ''audio''\<rparr>)),
      b64decode = (\<lambda>data. Inr []),
      new_RTCSessionDescription = sim_new_description,
      pc_localDescription = sim_local,
      pc_signalingState = (\<lambda>e. PyStr ''stable''),
      pc_iceGatheringState = (\<lambda>e. PyStr ''new''),
      pc_iceConnectionState = (\<lambda>e. PyStr ''new''),
      pc_addTransceiver = (\<lambda>trk e. (e\<lparr>sim_mids := sim_mids e @ [None]\<rparr>, Inr (length (sim_mids e)))),
      pc_getTransceivers = (\<lambda>e. [0 ..< length (sim_mids e)]),
      pc_setLocalDescription = (\<lambda>d e. (e\<lparr>sim_local := Some d\<rparr>, Inr ())),
      pc_setRemoteDescription = (\<lambda>d e. (e, Inr ())),
      pc_createOffer = (\<lambda>e. (e, Inr \<lparr>sd_sdp = PyStr ''v=0'', sd_type = PyStr ''offer''\<rparr>)),
      pc_createAnswer = (\<lambda>e. (e, Inl (Raised ''no remote description''))),
      pc_getStats = (\<lambda>e. (e, Inr (sim_stats e))),
      pc_createDataChannel = sim_createDataChannel,
      pc_close = (\<lambda>e. (e, Inr ())),
      tr_mid = (\<lambda>e t. case drop t (sim_mids e) of m # rest \<Rightarrow> m | [] \<Rightarrow> None),
      tr_set_direction = (\<lambda>t d e. (e, Inr ())),
      sender_replaceTrack = (\<lambda>t trk e. (e, Inr ())),
      sender_getStats = (\<lambda>t e. (e, Inr (sim_stats e))),
      receiver_getStats = (\<lambda>t e. (e, Inr (sim_stats e))),
      dc_attrs = sim_attrs,
      dc_send = (\<lambda>c data e. (e, Inr ())),
      dc_close = (\<lambda>c e. (e\<lparr>sim_closed := sim_closed e @ [c]\<rparr>, Inr ())),
      dc_set_bufferedAmountLowThreshold = (\<lambda>c v e. (e, Inr ()))\<rparr>"

definition sim0 :: sim where
  "sim0 = \<lparr>sim_channels = [], sim_options = [], sim_mids = [], sim_stats = [],
           sim_local = None, sim_closed = []\<rparr>"

section \<open>Notions used by the properties\<close>

text \<open>The five entry types of the statistics contract.\<close>

definition recognized_type :: "string \<Rightarrow> bool" where
  "recognized_type t =
     (t = ''inbound-rtp'' \<or> t = ''outbound-rtp'' \<or> t = ''remote-inbound-rtp''
      \<or> t = ''remote-outbound-rtp'' \<or> t = ''transport'')"

text \<open>
  What the chain of \<^verbatim>\<open>handler.getTransportStats\<close> does with one entry: the serializer it
  calls, or nothing.
\<close>

definition transport_entry :: "rtc_stats \<Rightarrow> (exn + serialized) option" where
  "transport_entry s =
     (if st_type s = ''inbound-rtp'' then Some (serializeInboundStats s)
      else if st_type s = ''outbound-rtp'' then Some (serializeOutboundStats s)
      else if st_type s = ''remote-inbound-rtp'' then Some (serializeRemoteInboundStats s)
      else if st_type s = ''remote-outbound-rtp'' then Some (serializeRemoteOutboundStats s)
      else if st_type s = ''transport'' then Some (serializeTransportStats s)
      else None)"

definition kept :: "stats_report \<Rightarrow> stats_report" where
  "kept stats = filter (\<lambda>(key, s). recognized_type (st_type s)) stats"

text \<open>
  The field set that section 4.5 of the specification lists for each type, written from
  the specification's words, to compare the serializers with.
\<close>

definition spec_field_set :: "string \<Rightarrow> string list" where
  "spec_field_set t =
     (if t = ''inbound-rtp'' then
        [''timestamp'', ''type'', ''id'', ''ssrc'', ''kind'', ''transportId'',
         ''packetsReceived'', ''packetsLost'', ''jitter'']
      else if t = ''outbound-rtp'' then
        [''timestamp'', ''type'', ''id'', ''ssrc'', ''kind'', ''transportId'',
         ''packetsSent'', ''bytesSent'', ''trackId'']
      else if t = ''remote-inbound-rtp'' then
        [''timestamp'', ''type'', ''id'', ''ssrc'', ''kind'', ''transportId'',
         ''packetsReceived'', ''packetsLost'', ''jitter'', ''roundTripTime'', ''fractionLost'']
      else if t = ''remote-outbound-rtp'' then
        [''timestamp'', ''type'', ''id'', ''ssrc'', ''kind'', ''transportId'',
         ''packetsSent'', ''bytesSent'', ''remoteTimestamp'']
      else if t = ''transport'' then
        [''timestamp'', ''type'', ''id'', ''packetsSent'', ''packetsReceived'',
         ''bytesSent'', ''bytesReceived'', ''iceRole'', ''dtlsState'']
      else [])"

text \<open>The entry of the result for an entry of the report that serializes.\<close>

definition result_entry :: "string \<times> rtc_stats \<Rightarrow> string \<times> serialized" where
  "result_entry p =
     (fst p, case transport_entry (snd p) of Some (Inr v) \<Rightarrow> v | Some (Inl e) \<Rightarrow> [] | None \<Rightarrow> [])"

definition serializes :: "string \<times> rtc_stats \<Rightarrow> bool" where
  "serializes p = (case transport_entry (snd p) of Some (Inr v) \<Rightarrow> True | Some (Inl e) \<Rightarrow> False | None \<Rightarrow> False)"

text \<open>The engine took the five options of a data channel as they were given.\<close>

definition accepted_unmodified :: "data_channel \<Rightarrow> dc_options \<Rightarrow> bool" where
  "accepted_unmodified ch kw =
     (ch_ordered ch = opt_ordered kw
      \<and> ch_maxPacketLifeTime ch = opt_maxPacketLifeTime kw
      \<and> ch_maxRetransmits ch = opt_maxRetransmits kw
      \<and> ch_label ch = opt_label kw
      \<and> ch_protocol ch = opt_protocol kw)"

text \<open>The notification one pass of the buffered-amount task sends for an item of the registry.\<close>

definition bufferedamount_note :: "'e env \<Rightarrow> 'e handler \<Rightarrow> string option \<times> nat \<Rightarrow> outnote" where
  "bufferedamount_note E h item =
     \<lparr>nt_target = fst item, nt_event = ''bufferedamount'',
      nt_data = ch_bufferedAmount (dc_attrs E (pc h) (snd item))\<rparr>"

text \<open>
  Two states with the same data-channel registry, closures and outbox; the weight of an
  identifier (its \<open>close\<close> notifications so far, plus one while it is registered); and the
  registry as a dictionary, each key once.
\<close>

definition same_regs :: "'e handler \<Rightarrow> 'e handler \<Rightarrow> bool" where
  "same_regs h h' =
     (dataChannels h' = dataChannels h \<and> outbox h' = outbox h \<and> listeners h' = listeners h)"

definition close_weight :: "string option \<Rightarrow> 'e handler \<Rightarrow> nat" where
  "close_weight d h = count_notes d ''close'' h + registered d h"

definition distinct_ids :: "'e handler \<Rightarrow> bool" where
  "distinct_ids h = distinct (map fst (dataChannels h))"




section \<open>Inputs for evaluation\<close>

definition h0 :: "sim handler" where
  "h0 = Handler_init ''handler-1'' sim0"

definition create_dc1 :: request where
  "create_dc1 =
     \<lparr>req_method = ''handler.createDataChannel'',
      req_internal = [(''dataChannelId'', ''dc1'')],
      req_data = Dict [(''id'', PyInt 1), (''ordered'', PyBool True), (''label'', PyStr ''chat'')]\<rparr>"

definition create_dc2 :: request where
  "create_dc2 =
     \<lparr>req_method = ''handler.createDataChannel'',
      req_internal = [(''dataChannelId'', ''dc2'')],
      req_data = Dict [(''id'', PyInt 2), (''maxRetransmits'', PyInt 0)]\<rparr>"

definition close_dc1 :: notification where
  "close_dc1 =
     \<lparr>ntf_event = ''datachannel.close'',
      ntf_internal = [(''dataChannelId'', ''dc1'')],
      ntf_data = Atom PyNone\<rparr>"

definition h_dc1 :: "sim handler" where
  "h_dc1 = step sim_env h0 (Request create_dc1)"

definition track_request :: "string \<Rightarrow> string \<Rightarrow> request" where
  "track_request m t = \<lparr>req_method = m, req_internal = [], req_data = Dict [(''trackId'', PyStr t)]\<rparr>"

definition mid_request :: "string \<Rightarrow> string \<Rightarrow> request" where
  "mid_request m mid = \<lparr>req_method = m, req_internal = [], req_data = Dict [(''mid'', PyStr mid)]\<rparr>"

definition plain_request :: "string \<Rightarrow> request" where
  "plain_request m = \<lparr>req_method = m, req_internal = [], req_data = Atom PyNone\<rparr>"



definition offer :: session_description where
  "offer = \<lparr>sd_sdp = PyStr ''v=0'', sd_type = PyStr ''offer''\<rparr>"

text \<open>A report with a transport entry, an entry of a type outside the contract, and an inbound entry.\<close>

definition report3 :: stats_report where
  "report3 =
     [(''transport_1'',
       \<lparr>st_timestamp = 0, st_type = ''transport'', st_id = ''transport_1'',
        st_fields = [(''packetsSent'', PyInt 10), (''packetsReceived'', PyInt 8),
                     (''bytesSent'', PyInt 1200), (''bytesReceived'', PyInt 900),
                     (''iceRole'', PyStr ''controlling''), (''dtlsState'', PyStr ''connected'')]\<rparr>),
      (''codec_1'',
       \<lparr>st_timestamp = 0, st_type = ''codec'', st_id = ''codec_1'', st_fields = []\<rparr>),
      (''inbound_1'',
       \<lparr>st_timestamp = 0, st_type = ''inbound-rtp'', st_id = ''inbound_1'',
        st_fields = [(''ssrc'', PyInt 1234), (''kind'', PyStr ''audio''),
                     (''transportId'', PyStr ''transport_1''), (''packetsReceived'', PyInt 8),
                     (''packetsLost'', PyInt 0), (''jitter'', PyInt 3)]\<rparr>)]"

definition h_stats :: "sim handler" where
  "h_stats = Handler_init ''handler-1'' (sim0\<lparr>sim_stats := report3\<rparr>)"

section \<open>Facts about the model\<close>

lemma notify_simps [simp]:
  "pc (notify t ev p h) = pc h"
  "dataChannels (notify t ev p h) = dataChannels h"
  "transceivers (notify t ev p h) = transceivers h"
  "listeners (notify t ev p h) = listeners h"
  "pollerRunning (notify t ev p h) = pollerRunning h"
  "handlerId (notify t ev p h) = handlerId h"
  "outbox (notify t ev p h) = outbox h @ [\<lparr>nt_target = t, nt_event = ev, nt_data = p\<rparr>]"
  by (simp_all add: notify_def)

lemma bufferedAmount_loop_eq:
  "bufferedAmount_loop E items h = h\<lparr>outbox := outbox h @ map (bufferedamount_note E h) items\<rparr>"
proof (induction items arbitrary: h)
  case Nil
  then show ?case by simp
next
  case (Cons item items)
  obtain d c where item: "item = (d, c)" by (cases item)
  have same: "map (bufferedamount_note E (notify d ''bufferedamount'' v h)) items
      = map (bufferedamount_note E h) items" for v
    by (simp add: bufferedamount_note_def)
  show ?case
    unfolding item bufferedAmount_loop.simps Cons.IH same
    by (simp add: notify_def bufferedamount_note_def)
qed

lemma tick_emitted:
  "emitted h (checkDataChannelsBufferedAmount E h) = map (bufferedamount_note E h) (dataChannels h)"
  by (simp add: emitted_def checkDataChannelsBufferedAmount_def bufferedAmount_loop_eq)

lemma count_key:
  "distinct (map fst items) \<Longrightarrow>
   length (filter (\<lambda>p. fst p = d) items) = (if map_of items d = None then 0 else 1)"
proof (induction items)
  case Nil
  then show ?case by simp
next
  case (Cons item items)
  then show ?case
    by (cases item) (auto simp: map_of_eq_None_iff image_iff filter_empty_conv)
qed

lemma count_targets:
  "length (filter (\<lambda>n. nt_target n = d) (map (bufferedamount_note E h) items))
     = length (filter (\<lambda>p. fst p = d) items)"
  by (simp add: filter_map comp_def bufferedamount_note_def)

lemma same_regs_refl [simp]: "same_regs h h" "same_regs h (h\<lparr>pc := e\<rparr>)"
  "same_regs h (h\<lparr>pc := e, transceivers := t\<rparr>)"
  by (simp_all add: same_regs_def)

lemma frame_getLocalDescription: "same_regs h (fst (req_getLocalDescription E h))"
  by (simp add: req_getLocalDescription_def split: option.splits)

lemma frame_addTrack: "same_regs h (fst (req_addTrack E h d))"
  by (simp add: req_addTrack_def split: sum.splits prod.splits option.splits)

lemma frame_removeTrack: "same_regs h (fst (req_removeTrack E h d))"
  by (simp add: req_removeTrack_def split: sum.splits prod.splits)

lemma frame_setLocalDescription: "same_regs h (fst (req_setLocalDescription E h d))"
  by (simp add: req_setLocalDescription_def split: sum.splits prod.splits)

lemma frame_setRemoteDescription: "same_regs h (fst (req_setRemoteDescription E h d))"
  by (simp add: req_setRemoteDescription_def split: sum.splits prod.splits)

lemma frame_createOffer: "same_regs h (fst (req_createOffer E h))"
  by (simp add: req_createOffer_def split: sum.splits prod.splits)

lemma frame_createAnswer: "same_regs h (fst (req_createAnswer E h))"
  by (simp add: req_createAnswer_def split: sum.splits prod.splits)

lemma frame_getMid: "same_regs h (fst (req_getMid E h d))"
  by (simp add: req_getMid_def split: sum.splits prod.splits)

lemma frame_getTransportStats: "same_regs h (fst (req_getTransportStats E h))"
  by (simp add: req_getTransportStats_def split: sum.splits prod.splits)

lemma frame_getSenderStats: "same_regs h (fst (req_getSenderStats E h d))"
  by (simp add: req_getSenderStats_def split: sum.splits prod.splits option.splits)

lemma frame_getReceiverStats: "same_regs h (fst (req_getReceiverStats E h d))"
  by (simp add: req_getReceiverStats_def split: sum.splits prod.splits option.splits)

lemma req_other_frame:
  "req_method r \<noteq> ''handler.createDataChannel'' \<Longrightarrow> same_regs h (fst (processRequest E h r))"
  unfolding processRequest_def
  by (simp add: frame_getLocalDescription frame_addTrack frame_removeTrack
      frame_setLocalDescription frame_setRemoteDescription frame_createOffer
      frame_createAnswer frame_getMid frame_getTransportStats frame_getSenderStats
      frame_getReceiverStats)

lemma req_create_cases:
  "(\<not> is_ok (snd (req_createDataChannel E h i d))
      \<and> same_regs h (fst (req_createDataChannel E h i d)))
   \<or> (\<exists>c. is_ok (snd (req_createDataChannel E h i d))
      \<and> dataChannels (fst (req_createDataChannel E h i d))
          = AList.update (map_of i ''dataChannelId'') c (dataChannels h)
      \<and> outbox (fst (req_createDataChannel E h i d)) = outbox h)"
proof (cases "createDataChannel_kwargs d")
  case (Inl e)
  then show ?thesis by (simp add: req_createDataChannel_def)
next
  case (Inr kw)
  obtain e1 r where call: "pc_createDataChannel E kw (pc h) = (e1, r)"
    by (cases "pc_createDataChannel E kw (pc h)")
  show ?thesis
    by (cases r) (auto simp: req_createDataChannel_def Inr call Let_def)
qed

lemma close_weight_same: "same_regs h h' \<Longrightarrow> close_weight d h' = close_weight d h"
  by (simp add: close_weight_def same_regs_def count_notes_def registered_def)

lemma close_weight_pc [simp]: "close_weight d (h\<lparr>pc := e\<rparr>) = close_weight d h"
  by (simp add: close_weight_def count_notes_def registered_def)

lemma close_weight_notify:
  "ev \<noteq> ''close'' \<Longrightarrow> close_weight d (notify t ev p h) = close_weight d h"
  by (simp add: close_weight_def count_notes_def registered_def is_note_def)

lemma close_weight_delete:
  "close_weight d (h\<lparr>dataChannels := AList.delete k (dataChannels h)\<rparr>) \<le> close_weight d h"
  by (simp add: close_weight_def count_notes_def registered_def delete_conv)

lemma close_weight_on_close: "close_weight d (on_close k h) = close_weight d h"
  by (auto simp: on_close_def py_del_def close_weight_def count_notes_def registered_def is_note_def
      delete_conv split: option.splits)

lemma close_weight_on_message: "close_weight d (on_message k m h) = close_weight d h"
  by (cases m) (simp_all add: close_weight_notify Let_def)

lemma close_weight_listener: "close_weight d (dc_listener ev k h) = close_weight d h"
  by (cases ev)
     (simp_all add: on_open_def on_closing_def on_bufferedamountlow_def close_weight_notify
        close_weight_on_close close_weight_on_message)

lemma close_weight_emit_dc: "close_weight d (emit_dc ls obj ev h) = close_weight d h"
  by (induction ls arbitrary: h) (auto simp: close_weight_listener)

lemma close_weight_emit_pc: "close_weight d (emit_pc E ev h) = close_weight d h"
  by (cases ev)
     (simp_all add: on_signalingstatechange_def on_icegatheringstatechange_def
        on_iceconnectionstatechange_def close_weight_notify)

lemma close_weight_poller: "close_weight d (checkDataChannelsBufferedAmount E h) = close_weight d h"
  by (simp add: checkDataChannelsBufferedAmount_def bufferedAmount_loop_eq close_weight_def
      count_notes_def registered_def is_note_def bufferedamount_note_def filter_map comp_def)

lemma close_weight_ntf_send: "close_weight d (fst (ntf_send E h i x)) = close_weight d h"
  by (simp add: ntf_send_def close_weight_notify split: option.splits sum.splits prod.splits)

lemma close_weight_ntf_sendBinary: "close_weight d (fst (ntf_sendBinary E h i x)) = close_weight d h"
  by (simp add: ntf_sendBinary_def close_weight_notify split: option.splits sum.splits prod.splits)

lemma close_weight_ntf_threshold: "close_weight d (fst (ntf_setBufferedAmountLowThreshold E h i x)) = close_weight d h"
  by (simp add: ntf_setBufferedAmountLowThreshold_def split: option.splits sum.splits prod.splits)

lemma ntf_close_eq:
  "ntf_close E h i =
     (case map_of i ''dataChannelId'' of
        None \<Rightarrow> (h, Inl (TypeError ''missing dataChannelId''))
      | Some k \<Rightarrow>
        (case map_of (dataChannels h) (Some k) of
           None \<Rightarrow> (h, Inr ())
         | Some c \<Rightarrow>
            (h\<lparr>dataChannels := AList.delete (Some k) (dataChannels h), pc := fst (dc_close E c (pc h))\<rparr>,
             snd (dc_close E c (pc h)))))"
proof -
  have "(case dc_close E c e of (e1, Inl x) \<Rightarrow> (g\<lparr>pc := e1\<rparr>, Inl x) | (e1, Inr u) \<Rightarrow> (g\<lparr>pc := e1\<rparr>, Inr ()))
      = (g\<lparr>pc := fst (dc_close E c e)\<rparr>, snd (dc_close E c e))" for c e and g :: "'a handler"
    by (cases "dc_close E c e"; cases "snd (dc_close E c e)") simp_all
  then show ?thesis
    by (simp add: ntf_close_def py_del_def Let_def split: option.splits)
qed

lemma close_weight_ntf_close: "close_weight d (fst (ntf_close E h i)) \<le> close_weight d h"
  using close_weight_delete [of d "Some k" h for k]
  by (simp add: ntf_close_eq close_weight_def count_notes_def registered_def delete_conv split: option.splits)

lemma close_weight_notification: "close_weight d (fst (processNotification E h n)) \<le> close_weight d h"
  unfolding processNotification_def
  by (simp add: close_weight_ntf_send close_weight_ntf_sendBinary close_weight_ntf_threshold close_weight_ntf_close)

lemma close_weight_update:
  "close_weight d (h\<lparr>dataChannels := AList.update k c (dataChannels h)\<rparr>) \<le> close_weight d h + (if k = d then 1 else 0)"
  by (simp add: close_weight_def count_notes_def registered_def update_conv')

lemma close_weight_create:
  "close_weight d (fst (req_createDataChannel E h i x))
     \<le> close_weight d h + (if map_of i ''dataChannelId'' = d \<and> is_ok (snd (req_createDataChannel E h i x)) then 1 else 0)"
proof -
  from req_create_cases [of E h i x] show ?thesis
  proof (elim disjE conjE exE)
    assume "same_regs h (fst (req_createDataChannel E h i x))"
    then show ?thesis by (simp add: close_weight_same)
  next
    fix c
    assume ok: "is_ok (snd (req_createDataChannel E h i x))"
      and reg: "dataChannels (fst (req_createDataChannel E h i x))
          = AList.update (map_of i ''dataChannelId'') c (dataChannels h)"
      and out: "outbox (fst (req_createDataChannel E h i x)) = outbox h"
    then show ?thesis
      by (simp add: close_weight_def count_notes_def registered_def update_conv')
  qed
qed

lemma close_weight_request:
  "close_weight d (fst (processRequest E h r)) \<le> close_weight d h + (if registers E h (Request r) d then 1 else 0)"
proof (cases "req_method r = ''handler.createDataChannel''")
  case True
  then have "processRequest E h r = req_createDataChannel E h (req_internal r) (req_data r)"
    by (simp add: processRequest_def)
  then show ?thesis
    using close_weight_create [of d E h "req_internal r" "req_data r"] True by simp
next
  case False
  then show ?thesis
    using close_weight_same [OF req_other_frame [OF False, of h E], of d] by simp
qed

lemma close_weight_step:
  "close_weight d (step E h i) \<le> close_weight d h + (if registers E h i d then 1 else 0)"
proof (cases i)
  case (Request r)
  then show ?thesis using close_weight_request [of d E h r] by simp
next
  case (Notification n)
  then show ?thesis using close_weight_notification [of d E h n] by simp
next
  case (PcEvent ev)
  then show ?thesis by (simp add: close_weight_emit_pc)
next
  case (DcEvent obj ev)
  then show ?thesis by (simp add: close_weight_emit_dc)
next
  case PollerTick
  then show ?thesis by (simp add: close_weight_poller)
next
  case (EngineInternal f)
  then show ?thesis by simp
next
  case HandlerClose
  then show ?thesis
    by (simp add: Handler_close_def close_weight_def count_notes_def registered_def split: prod.splits)
qed

lemma close_weight_run:
  "close_weight d (run E h inputs) \<le> close_weight d h + registrations E h inputs d"
proof (induction inputs arbitrary: h)
  case Nil
  then show ?case by simp
next
  case (Cons i inputs)
  have "close_weight d (run E (step E h i) inputs) \<le> close_weight d (step E h i) + registrations E (step E h i) inputs d"
    by (rule Cons.IH)
  also have "\<dots> \<le> (close_weight d h + (if registers E h i d then 1 else 0)) + registrations E (step E h i) inputs d"
    using close_weight_step [of d E h i] by simp
  finally show ?case by simp
qed

lemma on_close_absent: "map_of (dataChannels h) d = None \<Longrightarrow> on_close d h = h"
  by (simp add: on_close_def py_del_def)

lemma distinct_ids_same: "same_regs h h' \<Longrightarrow> distinct_ids h \<Longrightarrow> distinct_ids h'"
  by (simp add: distinct_ids_def same_regs_def)

lemma distinct_ids_notify [simp]: "distinct_ids (notify t ev p h) = distinct_ids h"
  by (simp add: distinct_ids_def)

lemma distinct_ids_pc [simp]: "distinct_ids (h\<lparr>pc := e\<rparr>) = distinct_ids h"
  by (simp add: distinct_ids_def)

lemma distinct_ids_on_close: "distinct_ids h \<Longrightarrow> distinct_ids (on_close k h)"
  by (simp add: on_close_def py_del_def distinct_ids_def distinct_delete split: option.splits)

lemma distinct_ids_on_message: "distinct_ids (on_message k m h) = distinct_ids h"
  by (cases m) (simp_all add: Let_def)

lemma distinct_ids_listener: "distinct_ids h \<Longrightarrow> distinct_ids (dc_listener ev k h)"
  by (cases ev)
     (simp_all add: on_open_def on_closing_def on_bufferedamountlow_def distinct_ids_on_close distinct_ids_on_message)

lemma distinct_ids_emit_dc: "distinct_ids h \<Longrightarrow> distinct_ids (emit_dc ls obj ev h)"
  by (induction ls arbitrary: h) (auto simp: distinct_ids_listener)

lemma distinct_ids_emit_pc: "distinct_ids (emit_pc E ev h) = distinct_ids h"
  by (cases ev)
     (simp_all add: on_signalingstatechange_def on_icegatheringstatechange_def
        on_iceconnectionstatechange_def)

lemma distinct_ids_poller: "distinct_ids (checkDataChannelsBufferedAmount E h) = distinct_ids h"
  by (simp add: checkDataChannelsBufferedAmount_def bufferedAmount_loop_eq distinct_ids_def)

lemma distinct_ids_ntf_send: "distinct_ids (fst (ntf_send E h i x)) = distinct_ids h"
  by (simp add: ntf_send_def split: option.splits sum.splits prod.splits)

lemma distinct_ids_ntf_sendBinary: "distinct_ids (fst (ntf_sendBinary E h i x)) = distinct_ids h"
  by (simp add: ntf_sendBinary_def split: option.splits sum.splits prod.splits)

lemma distinct_ids_ntf_threshold: "distinct_ids (fst (ntf_setBufferedAmountLowThreshold E h i x)) = distinct_ids h"
  by (simp add: ntf_setBufferedAmountLowThreshold_def split: option.splits sum.splits prod.splits)

lemma distinct_ids_ntf_close: "distinct_ids h \<Longrightarrow> distinct_ids (fst (ntf_close E h i))"
  by (simp add: ntf_close_eq distinct_ids_def distinct_delete split: option.splits)

lemma distinct_ids_notification: "distinct_ids h \<Longrightarrow> distinct_ids (fst (processNotification E h n))"
  unfolding processNotification_def
  by (simp add: distinct_ids_ntf_send distinct_ids_ntf_sendBinary distinct_ids_ntf_threshold distinct_ids_ntf_close)

lemma distinct_ids_create: "distinct_ids h \<Longrightarrow> distinct_ids (fst (req_createDataChannel E h i x))"
  using req_create_cases [of E h i x]
  by (auto simp: distinct_ids_def same_regs_def distinct_update)

lemma distinct_ids_request: "distinct_ids h \<Longrightarrow> distinct_ids (fst (processRequest E h r))"
proof (cases "req_method r = ''handler.createDataChannel''")
  case True
  then have "processRequest E h r = req_createDataChannel E h (req_internal r) (req_data r)"
    by (simp add: processRequest_def)
  then show "distinct_ids h \<Longrightarrow> ?thesis" by (simp add: distinct_ids_create)
next
  case False
  then show "distinct_ids h \<Longrightarrow> ?thesis"
    using distinct_ids_same [OF req_other_frame [OF False, of h E]] by simp
qed

lemma distinct_ids_close: "distinct_ids (fst (Handler_close E h)) = distinct_ids h"
  by (simp add: Handler_close_def distinct_ids_def split: prod.splits)

lemma distinct_ids_step: "distinct_ids h \<Longrightarrow> distinct_ids (step E h i)"
  by (cases i)
     (simp_all add: distinct_ids_request distinct_ids_notification distinct_ids_emit_pc distinct_ids_emit_dc distinct_ids_poller distinct_ids_close)

lemma distinct_ids_run: "distinct_ids h \<Longrightarrow> distinct_ids (run E h inputs)"
  by (induction inputs arbitrary: h) (simp_all add: distinct_ids_step)

lemma distinct_ids_init: "distinct_ids (Handler_init hid e)"
  by (simp add: distinct_ids_def Handler_init_def)

lemma tick_registry:
  "dataChannels (checkDataChannelsBufferedAmount E h) = dataChannels h"
  by (simp add: checkDataChannelsBufferedAmount_def bufferedAmount_loop_eq)


lemma loop_step:
  "transportStats_loop ((k, s) # rest) acc =
     (case transport_entry s of
        None \<Rightarrow> transportStats_loop rest acc
      | Some (Inl e) \<Rightarrow> Inl e
      | Some (Inr v) \<Rightarrow> transportStats_loop rest (AList.update k v acc))"
  by (simp add: transport_entry_def)

lemma entry_None: "(transport_entry s = None) = (\<not> recognized_type (st_type s))"
  by (simp add: transport_entry_def recognized_type_def)

declare transportStats_loop.simps(2) [simp del]

lemma kept_Cons:
  "kept ((k, s) # stats) = (if transport_entry s = None then kept stats else (k, s) # kept stats)"
  by (simp add: kept_def entry_None)

lemma loop_kept: "transportStats_loop stats acc = transportStats_loop (kept stats) acc"
proof (induction stats arbitrary: acc)
  case Nil
  then show ?case by (simp add: kept_def)
next
  case (Cons p stats)
  obtain k s where p: "p = (k, s)" by (cases p)
  show ?case
    unfolding p
    by (cases "transport_entry s")
       (simp_all add: kept_Cons loop_step Cons.IH [symmetric] split: sum.splits)
qed

lemma serializes_pair: "serializes (k, s) = (\<exists>v. transport_entry s = Some (Inr v))"
  by (simp add: serializes_def split: option.splits sum.splits)

lemma update_fresh: "k \<notin> fst ` set al \<Longrightarrow> AList.update k v al = al @ [(k, v)]"
  by (induction al) auto

lemma loop_ok:
  "list_all serializes (kept stats) \<Longrightarrow> distinct (map fst acc @ map fst stats) \<Longrightarrow>
   transportStats_loop stats acc = Inr (acc @ map result_entry (kept stats))"
proof (induction stats arbitrary: acc)
  case Nil
  then show ?case by (simp add: kept_def)
next
  case (Cons p stats)
  obtain k s where p: "p = (k, s)" by (cases p)
  show ?case
  proof (cases "transport_entry s")
    case None
    have "transportStats_loop stats acc = Inr (acc @ map result_entry (kept stats))"
      using Cons.prems unfolding p by (intro Cons.IH) (simp_all add: kept_Cons None)
    then show ?thesis unfolding p by (simp add: loop_step None kept_Cons)
  next
    case (Some x)
    from Cons.prems(1) obtain v where v: "x = Inr v" and rest: "list_all serializes (kept stats)"
      unfolding p by (cases x) (simp_all add: serializes_pair Some kept_Cons)
    have fresh: "k \<notin> fst ` set acc" using Cons.prems(2) by (auto simp: p)
    have "transportStats_loop stats (acc @ [(k, v)]) = Inr ((acc @ [(k, v)]) @ map result_entry (kept stats))"
      using Cons.prems(2) rest by (intro Cons.IH) (auto simp: p)
    then show ?thesis
      unfolding p by (simp add: loop_step Some v update_fresh [OF fresh] result_entry_def kept_Cons)
  qed
qed

lemma loop_fail:
  "\<not> list_all serializes (kept stats) \<Longrightarrow> \<not> is_ok (transportStats_loop stats acc)"
proof (induction stats arbitrary: acc)
  case Nil
  then show ?case by (simp add: kept_def)
next
  case (Cons p stats)
  obtain k s where p: "p = (k, s)" by (cases p)
  show ?case
  proof (cases "transport_entry s")
    case None
    show ?thesis using Cons.IH Cons.prems unfolding p by (simp add: loop_step None kept_Cons)
  next
    case (Some x)
    show ?thesis
    proof (cases x)
      case (Inl e)
      then show ?thesis unfolding p by (simp add: loop_step Some)
    next
      case (Inr v)
      then have "\<not> list_all serializes (kept stats)"
        using Cons.prems unfolding p by (simp add: serializes_pair Some kept_Cons)
      then show ?thesis using Cons.IH unfolding p by (simp add: loop_step Some Inr)
    qed
  qed
qed

lemma read_attrs_names: "read_attrs s names = Inr fs \<Longrightarrow> map fst fs = names"
  by (induction names arbitrary: fs) (auto split: sum.splits)

lemma base_names: "map fst (base_entries s) = [''timestamp'', ''type'', ''id'']"
  by (simp add: base_entries_def)

lemma fields_inbound: "serializeInboundStats s = Inr v \<Longrightarrow> map fst v = spec_field_set ''inbound-rtp''"
  by (auto simp: serializeInboundStats_def spec_field_set_def base_names split: sum.splits dest!: read_attrs_names)

lemma fields_outbound: "serializeOutboundStats s = Inr v \<Longrightarrow> map fst v = spec_field_set ''outbound-rtp''"
  by (auto simp: serializeOutboundStats_def spec_field_set_def base_names split: sum.splits dest!: read_attrs_names)

lemma fields_remote_inbound: "serializeRemoteInboundStats s = Inr v \<Longrightarrow> map fst v = spec_field_set ''remote-inbound-rtp''"
  by (auto simp: serializeRemoteInboundStats_def spec_field_set_def base_names split: sum.splits dest!: read_attrs_names)

lemma fields_remote_outbound: "serializeRemoteOutboundStats s = Inr v \<Longrightarrow> map fst v = spec_field_set ''remote-outbound-rtp''"
  by (auto simp: serializeRemoteOutboundStats_def spec_field_set_def base_names split: sum.splits pyval.splits dest!: read_attrs_names)

lemma fields_transport: "serializeTransportStats s = Inr v \<Longrightarrow> map fst v = spec_field_set ''transport''"
  by (auto simp: serializeTransportStats_def spec_field_set_def base_names split: sum.splits dest!: read_attrs_names)

lemma fields_entry:
  "serializes p \<Longrightarrow> map fst (snd (result_entry p)) = spec_field_set (st_type (snd p))"
  by (auto simp: serializes_def result_entry_def transport_entry_def
      fields_inbound fields_outbound fields_remote_inbound fields_remote_outbound fields_transport
      split: if_splits sum.splits)

lemma b64alphabet_length: "length b64alphabet = 64"
  by (simp add: b64alphabet_def)

lemma b64char_in: "b64char i \<in> set b64alphabet"
  unfolding b64char_def by (rule nth_mem) (simp add: b64alphabet_length)

lemma b64encode_chars: "set (b64encode m) \<subseteq> insert (CHR ''='') (set b64alphabet)"
proof (induction m rule: b64encode.induct)
  case (1 a b c rest)
  then show ?case by (simp add: Let_def b64char_in le_supI2)
next
  case (2 a b)
  then show ?case by (simp add: Let_def b64char_in)
next
  case (3 a)
  then show ?case by (simp add: Let_def b64char_in)
next
  case 4
  then show ?case by simp
qed

lemma b64_plain_all:
  "list_all (\<lambda>c. repr_byte (CHR 0x27) c = [c] \<and> c \<noteq> CHR 0x27) (CHR ''='' # b64alphabet)"
  by (simp add: b64alphabet_def repr_byte_def)

lemma b64_plain:
  "c \<in> insert (CHR ''='') (set b64alphabet) \<Longrightarrow> repr_byte (CHR 0x27) c = [c] \<and> c \<noteq> CHR 0x27"
  using b64_plain_all unfolding list_all_iff by auto

lemma concat_singletons: "(\<And>c. c \<in> set xs \<Longrightarrow> f c = [c]) \<Longrightarrow> concat (map f xs) = xs"
  by (induction xs) auto

lemma str_of_b64:
  "str_of_bytes (b64encode m) = [CHR ''b'', CHR 0x27] @ b64encode m @ [CHR 0x27]"
proof -
  have plain: "repr_byte (CHR 0x27) c = [c] \<and> c \<noteq> CHR 0x27" if "c \<in> set (b64encode m)" for c
    using that b64encode_chars [of m] by (intro b64_plain) blast
  then have noq: "CHR 0x27 \<notin> set (b64encode m)" by blast
  have "concat (map (repr_byte (CHR 0x27)) (b64encode m)) = b64encode m"
    by (rule concat_singletons) (simp add: plain)
  then show ?thesis
    using noq by (simp add: str_of_bytes_def Let_def)
qed

lemma notify_payload_inj:
  "notify d ev (PyStr a) h = notify d ev (PyStr b) h \<Longrightarrow> a = b"
  by (drule arg_cong [where f = outbox]) simp

lemma wrapped_differs: "[CHR ''b'', CHR 0x27] @ xs @ [CHR 0x27] \<noteq> xs"
proof
  assume "[CHR ''b'', CHR 0x27] @ xs @ [CHR 0x27] = xs"
  then have "length ([CHR ''b'', CHR 0x27] @ xs @ [CHR 0x27]) = length xs" by simp
  then show False by simp
qed


lemma kwargs_Dict:
  "createDataChannel_kwargs data = Inr kwargs \<Longrightarrow> \<exists>kw. data = Dict kw"
  by (cases data) (simp_all add: createDataChannel_kwargs_def)

section \<open>Evaluation of the inputs\<close>

lemma h_dc1_eval:
  "dataChannels h_dc1 = [(Some ''dc1'', 0)]"
  "outbox h_dc1 = []"
  "listeners h_dc1 = [(0, Some ''dc1'')]"
  "sim_closed (pc h_dc1) = []"
  by (simp_all add: h_dc1_def h0_def create_dc1_def Handler_init_def sim0_def sim_env_def
      processRequest_def req_createDataChannel_def createDataChannel_kwargs_def
      sim_createDataChannel_def Let_def)

lemma sim_env_simps:
  "dc_close sim_env c e = (e\<lparr>sim_closed := sim_closed e @ [c]\<rparr>, Inr ())"
  "pc_createDataChannel sim_env = sim_createDataChannel"
  "dc_attrs sim_env = sim_attrs"
  "pc_getStats sim_env e = (e, Inr (sim_stats e))"
  "pc_getTransceivers sim_env e = [0 ..< length (sim_mids e)]"
  "new_RTCSessionDescription sim_env = sim_new_description"
  "pc_setLocalDescription sim_env d e = (e\<lparr>sim_local := Some d\<rparr>, Inr ())"
  "pc_setRemoteDescription sim_env d e = (e, Inr ())"
  by (simp_all add: sim_env_def)

section \<open>Properties\<close>

text \<open>
  C1. A \<^verbatim>\<open>datachannel.close\<close> notification for an identifier that is not in the data-channel
  registry returns without an error, sends nothing and leaves the whole state as it was;
  so does a second \<^verbatim>\<open>datachannel.close\<close> after a first one. For an identifier that is
  registered, the entry is removed from the registry and the channel object is closed: the
  entry is gone whatever the engine's \<^verbatim>\<open>close()\<close> does, and nothing is sent.
\<close>

theorem datachannel_close_idempotent:
  assumes "ntf_event n = ''datachannel.close''"
    and "map_of (ntf_internal n) ''dataChannelId'' = Some i"
  shows "(case map_of (dataChannels h) (Some i) of
            None \<Rightarrow> processNotification E h n = (h, Inr ())
          | Some c \<Rightarrow>
              processNotification E h n =
                (h\<lparr>dataChannels := AList.delete (Some i) (dataChannels h),
                   pc := fst (dc_close E c (pc h))\<rparr>,
                 snd (dc_close E c (pc h))))
         \<and> processNotification E (fst (processNotification E h n)) n
             = (fst (processNotification E h n), Inr ())"
proof -
  have ev: "processNotification E h' n = ntf_close E h' (ntf_internal n)" for h'
    using assms(1) by (simp add: processNotification_def)
  have gone: "map_of (dataChannels (fst (ntf_close E h (ntf_internal n)))) (Some i) = None"
    by (simp add: ntf_close_eq assms(2) delete_conv split: option.splits)
  have again: "ntf_close E h' (ntf_internal n) = (h', Inr ())"
    if "map_of (dataChannels h') (Some i) = None" for h'
    using that by (simp add: ntf_close_eq assms(2))
  show ?thesis
    unfolding ev again [OF gone]
    by (simp add: ntf_close_eq assms(2) split: option.splits)
qed

theorem datachannel_close_idempotent_witness:
  "dataChannels h_dc1 = [(Some ''dc1'', 0)]
   \<and> dataChannels (fst (processNotification sim_env h_dc1 close_dc1)) = []
   \<and> sim_closed (pc (fst (processNotification sim_env h_dc1 close_dc1))) = [0]
   \<and> outbox (fst (processNotification sim_env h_dc1 close_dc1)) = []
   \<and> snd (processNotification sim_env h_dc1 close_dc1) = Inr ()
   \<and> processNotification sim_env (fst (processNotification sim_env h_dc1 close_dc1)) close_dc1
       = (fst (processNotification sim_env h_dc1 close_dc1), Inr ())"
proof -
  have ev: "ntf_event close_dc1 = ''datachannel.close''"
    and i: "map_of (ntf_internal close_dc1) ''dataChannelId'' = Some ''dc1''"
    by (simp_all add: close_dc1_def)
  note inst = datachannel_close_idempotent [OF ev i, where h = h_dc1 and E = sim_env]
  from inst have first: "processNotification sim_env h_dc1 close_dc1
      = (h_dc1\<lparr>dataChannels := [], pc := (pc h_dc1)\<lparr>sim_closed := [0]\<rparr>\<rparr>, Inr ())"
    by (simp add: h_dc1_eval sim_env_simps)
  from inst have second:
    "processNotification sim_env (fst (processNotification sim_env h_dc1 close_dc1)) close_dc1
       = (fst (processNotification sim_env h_dc1 close_dc1), Inr ())"
    by (rule conjunct2)
  show ?thesis
    using second by (simp add: first h_dc1_eval)
qed

text \<open>
  C2. When an identifier is not registered (an explicit \<^verbatim>\<open>datachannel.close\<close> removed it),
  the closure \<^verbatim>\<open>on_close\<close> for it changes nothing: it does not raise and sends no \<open>close\<close>.
  So a close event of the engine on a channel object whose closures captured only
  unregistered identifiers changes nothing, and an \<^verbatim>\<open>on_close\<close> right after the explicit
  close of the same identifier changes nothing. Over any run from any state, the \<open>close\<close>
  notifications sent for an identifier, plus one if it is registered at the end, are at
  most those counted at the start plus the registrations of the identifier in the run;
  from a new handler, there are at most as many \<open>close\<close> notifications as registrations.
\<close>

theorem close_notification_at_most_once:
  "(map_of (dataChannels h) d = None \<longrightarrow> on_close d h = h)
   \<and> (list_all (\<lambda>l. fst l \<noteq> obj \<or> map_of (dataChannels h) (snd l) = None) ls
        \<longrightarrow> emit_dc ls obj Close h = h)
   \<and> (ntf_event n = ''datachannel.close'' \<and> map_of (ntf_internal n) ''dataChannelId'' = Some i
        \<longrightarrow> on_close (Some i) (fst (processNotification E h n)) = fst (processNotification E h n))
   \<and> count_notes d ''close'' (run E h inputs) + registered d (run E h inputs)
        \<le> count_notes d ''close'' h + registered d h + registrations E h inputs d
   \<and> count_notes d ''close'' (run E (Handler_init hid e) inputs)
        \<le> registrations E (Handler_init hid e) inputs d"
proof -
  have emit: "list_all (\<lambda>l. fst l \<noteq> obj \<or> map_of (dataChannels h) (snd l) = None) ls
      \<Longrightarrow> emit_dc ls obj Close h = h"
    by (induction ls) (auto simp: on_close_absent)
  have after: "on_close (Some i) (fst (processNotification E h n)) = fst (processNotification E h n)"
    if "ntf_event n = ''datachannel.close''" "map_of (ntf_internal n) ''dataChannelId'' = Some i"
  proof -
    have "processNotification E h n = ntf_close E h (ntf_internal n)"
      using that(1) by (simp add: processNotification_def)
    moreover have "map_of (dataChannels (fst (ntf_close E h (ntf_internal n)))) (Some i) = None"
      by (simp add: ntf_close_eq that(2) delete_conv split: option.splits)
    ultimately show ?thesis by (simp add: on_close_absent)
  qed
  have run_le: "count_notes d ''close'' (run E g inputs) + registered d (run E g inputs)
        \<le> count_notes d ''close'' g + registered d g + registrations E g inputs d" for g
    using close_weight_run [of d E g inputs] by (simp add: close_weight_def)
  have "count_notes d ''close'' (Handler_init hid e) + registered d (Handler_init hid e) = 0"
    by (simp add: count_notes_def registered_def Handler_init_def)
  with run_le [of "Handler_init hid e"]
  have init: "count_notes d ''close'' (run E (Handler_init hid e) inputs)
        \<le> registrations E (Handler_init hid e) inputs d"
    by simp
  show ?thesis
    using emit after run_le [of h] init by (simp add: on_close_absent)
qed

theorem close_notification_at_most_once_witness:
  "on_close (Some ''dc1'') (fst (processNotification sim_env h_dc1 close_dc1))
     = fst (processNotification sim_env h_dc1 close_dc1)
   \<and> emit_dc [(0, Some ''dc1'')] 0 Close (fst (processNotification sim_env h_dc1 close_dc1))
     = fst (processNotification sim_env h_dc1 close_dc1)
   \<and> count_notes (Some ''dc1'') ''close''
       (run sim_env h0 [Request create_dc1, Notification close_dc1, DcEvent 0 Close]) = 0
   \<and> registrations sim_env h0 [Request create_dc1, Notification close_dc1, DcEvent 0 Close]
       (Some ''dc1'') = 1
   \<and> count_notes (Some ''dc1'') ''close''
       (run sim_env h0 [Request create_dc1, DcEvent 0 Close, DcEvent 0 Close]) = 1"
proof -
  let ?h1 = "fst (processNotification sim_env h_dc1 close_dc1)"
  have ev: "ntf_event close_dc1 = ''datachannel.close''"
    and i: "map_of (ntf_internal close_dc1) ''dataChannelId'' = Some ''dc1''"
    by (simp_all add: close_dc1_def)
  have h1: "?h1 = h_dc1\<lparr>dataChannels := [], pc := (pc h_dc1)\<lparr>sim_closed := [0]\<rparr>\<rparr>"
    by (simp add: processNotification_def ev i ntf_close_eq h_dc1_eval sim_env_simps)
  note inst = close_notification_at_most_once
    [where h = h_dc1 and n = close_dc1 and i = "''dc1''" and E = sim_env and d = "Some ''dc2''"
       and ls = "[]" and inputs = "[]"]
  from inst ev i have after: "on_close (Some ''dc1'') ?h1 = ?h1" by blast
  have step1: "fst (processRequest sim_env h0 create_dc1) = h_dc1"
    by (simp add: h_dc1_def)
  have reg: "registers sim_env h0 (Request create_dc1) (Some ''dc1'')"
    by (simp add: h0_def create_dc1_def Handler_init_def sim0_def sim_env_simps
        processRequest_def req_createDataChannel_def createDataChannel_kwargs_def
        sim_createDataChannel_def Let_def)
  have ls: "listeners ?h1 = [(0, Some ''dc1'')]"
    by (simp add: h1 h_dc1_eval)
  have emit: "emit_dc [(0, Some ''dc1'')] 0 Close ?h1 = ?h1"
    using after by simp
  have run1: "run sim_env h0 [Request create_dc1, Notification close_dc1, DcEvent 0 Close] = ?h1"
    using emit by (simp add: step1 ls)
  have closed: "on_close (Some ''dc1'') h_dc1
      = notify (Some ''dc1'') ''close'' PyNone (h_dc1\<lparr>dataChannels := []\<rparr>)"
    by (simp add: on_close_def py_del_def h_dc1_eval)
  have run2: "run sim_env h0 [Request create_dc1, DcEvent 0 Close, DcEvent 0 Close]
      = notify (Some ''dc1'') ''close'' PyNone (h_dc1\<lparr>dataChannels := []\<rparr>)"
    by (simp add: step1 h_dc1_eval closed on_close_absent)
  have no_close: "count_notes (Some ''dc1'') ''close'' ?h1 = 0"
    by (simp add: h1 count_notes_def h_dc1_eval)
  have one_close: "count_notes (Some ''dc1'') ''close''
      (notify (Some ''dc1'') ''close'' PyNone (h_dc1\<lparr>dataChannels := []\<rparr>)) = 1"
    by (simp add: count_notes_def is_note_def h_dc1_eval)
  have regs: "registrations sim_env h0 [Request create_dc1, Notification close_dc1, DcEvent 0 Close]
       (Some ''dc1'') = 1"
    using reg by (simp add: close_dc1_def)
  show ?thesis
    unfolding run1 run2 using after emit no_close one_close regs by simp
qed

text \<open>
  C3. \<^verbatim>\<open>handler.removeTrack\<close> and \<^verbatim>\<open>handler.getMid\<close> for a \<^verbatim>\<open>trackId\<close> that is not a key of
  the transceiver registry raise \<^verbatim>\<open>KeyError\<close> for that identifier, Python's error of a
  failed lookup, and the handler's state (so the transceiver registry) is as before.
\<close>

theorem unknown_track_KeyError:
  assumes "req_method r = ''handler.removeTrack'' \<or> req_method r = ''handler.getMid''"
    and "py_get (req_data r) ''trackId'' = Inr (PyStr t)"
    and "map_of (transceivers h) t = None"
  shows "processRequest E h r = (h, Inl (KeyError (PyStr t)))"
  using assms
  by (auto simp: processRequest_def req_removeTrack_def req_getMid_def lookup_by_pyval_def
      py_lookup_def)

theorem unknown_track_KeyError_witness:
  "processRequest sim_env h0 (track_request ''handler.removeTrack'' ''t9'')
     = (h0, Inl (KeyError (PyStr ''t9'')))
   \<and> processRequest sim_env h0 (track_request ''handler.getMid'' ''t9'')
     = (h0, Inl (KeyError (PyStr ''t9'')))"
proof -
  have absent: "map_of (transceivers h0) ''t9'' = None"
    by (simp add: h0_def Handler_init_def)
  have get: "py_get (req_data (track_request m ''t9'')) ''trackId'' = Inr (PyStr ''t9'')" for m
    by (simp add: track_request_def)
  have m: "req_method (track_request m t) = m" for m t
    by (simp add: track_request_def)
  show ?thesis
    using unknown_track_KeyError [where r = "track_request ''handler.removeTrack'' ''t9''"
        and t = "''t9''" and h = h0 and E = sim_env]
      unknown_track_KeyError [where r = "track_request ''handler.getMid'' ''t9''"
        and t = "''t9''" and h = h0 and E = sim_env]
    by (simp add: absent get m)
qed

text \<open>
  C4. For a \<^verbatim>\<open>mid\<close> that no transceiver of the engine's list has,
  \<^verbatim>\<open>_getTransceiverByMid\<close> returns \<^verbatim>\<open>None\<close> and the two statistics requests read
  \<^verbatim>\<open>.sender\<close> and \<^verbatim>\<open>.receiver\<close> of it: they fail with \<^verbatim>\<open>AttributeError\<close> on \<^verbatim>\<open>NoneType\<close>,
  not with the error of a failed lookup.
\<close>

theorem unknown_mid_AttributeError:
  assumes "py_get (req_data r) ''mid'' = Inr mid"
    and "mid \<noteq> PyNone"
    and "list_all (\<lambda>x. opt_str (tr_mid E (pc h) x) \<noteq> mid) (pc_getTransceivers E (pc h))"
  shows "(req_method r = ''handler.getSenderStats'' \<longrightarrow>
            processRequest E h r = (h, Inl (AttributeError ''NoneType'' ''sender'')))
       \<and> (req_method r = ''handler.getReceiverStats'' \<longrightarrow>
            processRequest E h r = (h, Inl (AttributeError ''NoneType'' ''receiver'')))"
proof -
  have "getTransceiverByMid E h mid = None"
    using assms(3) by (simp add: getTransceiverByMid_def find_None_iff list_all_iff)
  then show ?thesis
    using assms(1,2)
    by (simp add: processRequest_def req_getSenderStats_def req_getReceiverStats_def)
qed

theorem unknown_mid_AttributeError_witness:
  "processRequest sim_env h0 (mid_request ''handler.getSenderStats'' ''0'')
     = (h0, Inl (AttributeError ''NoneType'' ''sender''))
   \<and> processRequest sim_env h0 (mid_request ''handler.getReceiverStats'' ''0'')
     = (h0, Inl (AttributeError ''NoneType'' ''receiver''))"
proof -
  have none: "list_all (\<lambda>x. opt_str (tr_mid sim_env (pc h0) x) \<noteq> PyStr ''0'')
      (pc_getTransceivers sim_env (pc h0))"
    by (simp add: h0_def Handler_init_def sim0_def sim_env_simps)
  have get: "py_get (req_data (mid_request m ''0'')) ''mid'' = Inr (PyStr ''0'')" for m
    by (simp add: mid_request_def)
  have m: "req_method (mid_request m t) = m" for m t
    by (simp add: mid_request_def)
  show ?thesis
    using unknown_mid_AttributeError [OF get [of "''handler.getSenderStats''"] _ none]
      unknown_mid_AttributeError [OF get [of "''handler.getReceiverStats''"] _ none]
    by (simp add: m)
qed

text \<open>
  C5. After any run of a new handler, one pass of the buffered-amount task sends exactly
  one \<open>bufferedamount\<close> notification per entry of the data-channel registry, in the
  registry's order: as many as the registry has entries, for every identifier one if it
  is registered and none if it is not, no identifier twice, each with the identifier as
  its target and the channel's \<^verbatim>\<open>bufferedAmount\<close> as its payload; the registry is as
  before. The pass is one
  step of the model: nothing changes the registry while it runs.
\<close>

theorem poller_one_note_per_channel:
  assumes "h = run E (Handler_init hid e0) inputs"
  shows "emitted h (checkDataChannelsBufferedAmount E h)
           = map (bufferedamount_note E h) (dataChannels h)
       \<and> length (emitted h (checkDataChannelsBufferedAmount E h)) = length (dataChannels h)
       \<and> length (filter (\<lambda>n. nt_target n = d) (emitted h (checkDataChannelsBufferedAmount E h)))
           = registered d h
       \<and> map nt_target (emitted h (checkDataChannelsBufferedAmount E h)) = map fst (dataChannels h)
       \<and> distinct (map nt_target (emitted h (checkDataChannelsBufferedAmount E h)))
       \<and> dataChannels (checkDataChannelsBufferedAmount E h) = dataChannels h"
proof -
  have "distinct_ids h"
    unfolding assms by (rule distinct_ids_run [OF distinct_ids_init])
  then have dist: "distinct (map fst (dataChannels h))"
    by (simp add: distinct_ids_def)
  have count: "length (filter (\<lambda>n. nt_target n = d) (emitted h (checkDataChannelsBufferedAmount E h)))
      = registered d h"
    unfolding tick_emitted count_targets count_key [OF dist] registered_def by simp
  have targets: "map nt_target (map (bufferedamount_note E h) items) = map fst items" for items
    by (simp add: bufferedamount_note_def comp_def)
  have em: "emitted h (checkDataChannelsBufferedAmount E h)
      = map (bufferedamount_note E h) (dataChannels h)"
    by (rule tick_emitted)
  have tg: "map nt_target (emitted h (checkDataChannelsBufferedAmount E h)) = map fst (dataChannels h)"
    unfolding em by (rule targets)
  have len: "length (emitted h (checkDataChannelsBufferedAmount E h)) = length (dataChannels h)"
    unfolding em by simp
  have dt: "distinct (map nt_target (emitted h (checkDataChannelsBufferedAmount E h)))"
    unfolding tg by (rule dist)
  show ?thesis
    by (intro conjI em len count tg dt tick_registry)
qed

lemma two_channels_eval:
  "dataChannels (run sim_env h0 [Request create_dc1, Request create_dc2])
     = [(Some ''dc1'', 0), (Some ''dc2'', 1)]"
  "ch_bufferedAmount (sim_attrs (pc (run sim_env h0 [Request create_dc1, Request create_dc2])) 0) = PyInt 0"
  "ch_bufferedAmount (sim_attrs (pc (run sim_env h0 [Request create_dc1, Request create_dc2])) (Suc 0)) = PyInt 0"
  by (simp_all add: h0_def create_dc1_def create_dc2_def Handler_init_def sim0_def sim_env_simps
      processRequest_def req_createDataChannel_def createDataChannel_kwargs_def
      sim_createDataChannel_def sim_attrs_def Let_def)

theorem poller_one_note_per_channel_witness:
  "emitted (run sim_env h0 [Request create_dc1, Request create_dc2])
     (checkDataChannelsBufferedAmount sim_env (run sim_env h0 [Request create_dc1, Request create_dc2]))
     = [\<lparr>nt_target = Some ''dc1'', nt_event = ''bufferedamount'', nt_data = PyInt 0\<rparr>,
        \<lparr>nt_target = Some ''dc2'', nt_event = ''bufferedamount'', nt_data = PyInt 0\<rparr>]
   \<and> registered (Some ''dc2'') (run sim_env h0 [Request create_dc1, Request create_dc2]) = 1"
proof -
  have start: "run sim_env h0 [Request create_dc1, Request create_dc2]
      = run sim_env (Handler_init ''handler-1'' sim0) [Request create_dc1, Request create_dc2]"
    by (simp only: h0_def)
  show ?thesis
    using poller_one_note_per_channel [OF start, where d = "Some ''dc2''"]
    by (simp add: two_channels_eval bufferedamount_note_def registered_def sim_env_simps
        del: run.simps)
qed

text \<open>
  C6. \<^verbatim>\<open>handler.getTransportStats\<close> on a report of the engine (a dictionary, each key once):
  when every entry of one of the five types \<open>inbound-rtp\<close>, \<open>outbound-rtp\<close>,
  \<open>remote-inbound-rtp\<close>, \<open>remote-outbound-rtp\<close>, \<open>transport\<close> has the fields its serializer
  reads, the result holds, in the report's order, exactly the entries of these types,
  each under its key and serialized by the serializer of its type, whose field names are
  those the specification lists for the type. An entry of another type is not in the
  result and has no effect: the request returns what it returns on the report without
  such entries, and it fails only when an entry of the five types lacks a field.
\<close>

theorem transport_stats_recognized_only:
  assumes "req_method r = ''handler.getTransportStats''"
    and "pc_getStats E (pc h) = (e1, Inr stats)"
    and "distinct (map fst stats)"
  shows "(list_all serializes (kept stats) \<longrightarrow>
            processRequest E h r = (h\<lparr>pc := e1\<rparr>, Inr (RStats (map result_entry (kept stats)))))
       \<and> (\<not> list_all serializes (kept stats) \<longrightarrow> \<not> is_ok (snd (processRequest E h r)))
       \<and> list_all (\<lambda>p. map fst (snd (result_entry p)) = spec_field_set (st_type (snd p)))
            (filter serializes (kept stats))
       \<and> map fst (map result_entry (kept stats))
            = map fst (filter (\<lambda>p. recognized_type (st_type (snd p))) stats)
       \<and> transportStats_loop stats [] = transportStats_loop (kept stats) []"
proof -
  have req: "processRequest E h r =
      (case transportStats_loop stats [] of
         Inl e \<Rightarrow> (h\<lparr>pc := e1\<rparr>, Inl e)
       | Inr result \<Rightarrow> (h\<lparr>pc := e1\<rparr>, Inr (RStats result)))"
    using assms(1,2) by (simp add: processRequest_def req_getTransportStats_def)
  have ok: "list_all serializes (kept stats) \<Longrightarrow>
      transportStats_loop stats [] = Inr (map result_entry (kept stats))"
    using loop_ok [where acc = "[]" and stats = stats] assms(3) by simp
  have fail: "\<not> list_all serializes (kept stats) \<Longrightarrow> \<not> is_ok (snd (processRequest E h r))"
    using loop_fail [where acc = "[]" and stats = stats]
    by (cases "transportStats_loop stats []") (simp_all add: req)
  have fields: "list_all (\<lambda>p. map fst (snd (result_entry p)) = spec_field_set (st_type (snd p)))
      (filter serializes (kept stats))"
    by (simp add: list_all_iff fields_entry)
  have keys: "map fst (map result_entry (kept stats))
      = map fst (filter (\<lambda>p. recognized_type (st_type (snd p))) stats)"
    by (simp add: kept_def result_entry_def comp_def case_prod_unfold)
  show ?thesis
    using ok fail fields keys loop_kept [of stats "[]"] by (simp add: req)
qed

lemma report3_kept:
  "kept report3 = [report3 ! 0, report3 ! 2]"
  by (simp add: kept_def report3_def recognized_type_def)

lemma report3_entries:
  "result_entry (report3 ! 0) =
     (''transport_1'',
      [(''timestamp'', PyFloat 0), (''type'', PyStr ''transport''), (''id'', PyStr ''transport_1''),
       (''packetsSent'', PyInt 10), (''packetsReceived'', PyInt 8), (''bytesSent'', PyInt 1200),
       (''bytesReceived'', PyInt 900), (''iceRole'', PyStr ''controlling''),
       (''dtlsState'', PyStr ''connected'')])"
  "result_entry (report3 ! 2) =
     (''inbound_1'',
      [(''timestamp'', PyFloat 0), (''type'', PyStr ''inbound-rtp''), (''id'', PyStr ''inbound_1''),
       (''ssrc'', PyInt 1234), (''kind'', PyStr ''audio''), (''transportId'', PyStr ''transport_1''),
       (''packetsReceived'', PyInt 8), (''packetsLost'', PyInt 0), (''jitter'', PyInt 3)])"
  "serializes (report3 ! 0)"
  "serializes (report3 ! 2)"
  by (simp_all add: report3_def result_entry_def serializes_def transport_entry_def
      serializeTransportStats_def serializeInboundStats_def stat_attr_def base_entries_def
      datetime_timestamp_def)

theorem transport_stats_recognized_only_witness:
  "processRequest sim_env h_stats (plain_request ''handler.getTransportStats'')
     = (h_stats,
        Inr (RStats
          [(''transport_1'',
            [(''timestamp'', PyFloat 0), (''type'', PyStr ''transport''),
             (''id'', PyStr ''transport_1''), (''packetsSent'', PyInt 10),
             (''packetsReceived'', PyInt 8), (''bytesSent'', PyInt 1200),
             (''bytesReceived'', PyInt 900), (''iceRole'', PyStr ''controlling''),
             (''dtlsState'', PyStr ''connected'')]),
           (''inbound_1'',
            [(''timestamp'', PyFloat 0), (''type'', PyStr ''inbound-rtp''),
             (''id'', PyStr ''inbound_1''), (''ssrc'', PyInt 1234), (''kind'', PyStr ''audio''),
             (''transportId'', PyStr ''transport_1''), (''packetsReceived'', PyInt 8),
             (''packetsLost'', PyInt 0), (''jitter'', PyInt 3)])]))"
proof -
  have m: "req_method (plain_request ''handler.getTransportStats'') = ''handler.getTransportStats''"
    by (simp add: plain_request_def)
  have call: "pc_getStats sim_env (pc h_stats) = (pc h_stats, Inr report3)"
    by (simp add: sim_env_simps h_stats_def Handler_init_def sim0_def)
  have keys: "distinct (map fst report3)"
    by (simp add: report3_def)
  have same: "h_stats\<lparr>pc := pc h_stats\<rparr> = h_stats"
    by simp
  show ?thesis
    using transport_stats_recognized_only [OF m call keys]
    by (simp add: report3_kept report3_entries same)
qed

text \<open>
  C7. The chain of \<^verbatim>\<open>processRequest\<close> compares the method name with twelve names, not
  thirteen. A request whose method is none of the twelve raises the \<^verbatim>\<open>TypeError\<close>
  \<open>unknown request with method '...' received\<close> and the state is as before; each of the
  twelve is taken by a branch. A notification whose event is none of the six of
  \<^verbatim>\<open>processNotification\<close> raises the \<^verbatim>\<open>TypeError\<close> \<open>unknown notification with event '...'
  received\<close> and the state is as before.
\<close>

theorem unknown_method_or_event:
  "length request_methods = 12
   \<and> distinct request_methods
   \<and> list_all (\<lambda>m. processRequest sim_env h0 (plain_request m) \<noteq> (h0, Inl (unknown_request m)))
        request_methods
   \<and> (req_method r \<notin> set request_methods \<longrightarrow>
        processRequest E h r = (h, Inl (unknown_request (req_method r))))
   \<and> (ntf_event n \<notin> set notification_events \<longrightarrow>
        processNotification E h n = (h, Inl (unknown_notification (ntf_event n))))"
proof -
  have twelve: "length request_methods = 12 \<and> distinct request_methods"
    by (simp add: request_methods_def)
  have taken: "list_all (\<lambda>m. processRequest sim_env h0 (plain_request m) \<noteq> (h0, Inl (unknown_request m)))
      request_methods"
    by (simp add: request_methods_def plain_request_def processRequest_def unknown_request_def
        req_getLocalDescription_def req_addTrack_def req_removeTrack_def
        req_setLocalDescription_def req_setRemoteDescription_def req_createOffer_def
        req_createAnswer_def req_getMid_def req_getTransportStats_def req_getSenderStats_def
        req_getReceiverStats_def req_createDataChannel_def createDataChannel_kwargs_def
        sim_env_def h0_def Handler_init_def sim0_def quoted_def)
  have req: "req_method r \<notin> set request_methods \<Longrightarrow>
      processRequest E h r = (h, Inl (unknown_request (req_method r)))"
    by (simp add: request_methods_def processRequest_def)
  have ntf: "ntf_event n \<notin> set notification_events \<Longrightarrow>
      processNotification E h n = (h, Inl (unknown_notification (ntf_event n)))"
    by (simp add: notification_events_def processNotification_def)
  show ?thesis
    using twelve taken req ntf by simp
qed

theorem unknown_method_or_event_witness:
  "processRequest sim_env h_dc1 (plain_request ''handler.bogus'')
     = (h_dc1, Inl (TypeError (''unknown request with method '' @ [CHR 0x27] @ ''handler.bogus''
          @ [CHR 0x27] @ '' received'')))
   \<and> processNotification sim_env h_dc1 \<lparr>ntf_event = ''datachannel.bogus'', ntf_internal = [],
        ntf_data = Atom PyNone\<rparr>
     = (h_dc1, Inl (TypeError (''unknown notification with event '' @ [CHR 0x27]
          @ ''datachannel.bogus'' @ [CHR 0x27] @ '' received'')))"
proof -
  have r: "req_method (plain_request ''handler.bogus'') \<notin> set request_methods"
    by (simp add: plain_request_def request_methods_def)
  have n: "ntf_event \<lparr>ntf_event = ''datachannel.bogus'', ntf_internal = [], ntf_data = Atom PyNone\<rparr>
      \<notin> set notification_events"
    by (simp add: notification_events_def)
  show ?thesis
    using r n unknown_method_or_event [where r = "plain_request ''handler.bogus''"
        and n = "\<lparr>ntf_event = ''datachannel.bogus'', ntf_internal = [], ntf_data = Atom PyNone\<rparr>"
        and E = sim_env and h = h_dc1]
    by (simp add: plain_request_def unknown_request_def unknown_notification_def quoted_def)
qed

text \<open>
  The names the chain of \<^verbatim>\<open>processRequest\<close> compares with are not thirteen: as a set they
  are twelve.
\<close>

theorem dispatched_methods_not_thirteen:
  "card (set request_methods) \<noteq> 13"
  by (simp add: request_methods_def)

text \<open>
  C8. For a \<^verbatim>\<open>bytes\<close> message, \<^verbatim>\<open>on_message\<close> sends a \<open>binary\<close> notification whose payload is
  \<^verbatim>\<open>str\<close> of the base64 bytes: the letter \<open>b\<close>, a quote, the base64 text, a quote, which is
  never the base64 text itself. For a \<^verbatim>\<open>str\<close> message it sends a \<open>message\<close> notification
  with the text as it is.
\<close>

theorem binary_payload_is_bytes_repr:
  "on_message d (PyBytes m) h
     = notify d ''binary'' (PyStr ([CHR ''b'', CHR 0x27] @ b64encode m @ [CHR 0x27])) h
   \<and> on_message d (PyBytes m) h \<noteq> notify d ''binary'' (PyStr (b64encode m)) h
   \<and> on_message d (PyStr s) h = notify d ''message'' (PyStr s) h"
proof -
  have eq: "on_message d (PyBytes m) h
     = notify d ''binary'' (PyStr ([CHR ''b'', CHR 0x27] @ b64encode m @ [CHR 0x27])) h"
    by (simp add: str_of_b64 Let_def)
  have "notify d ''binary'' (PyStr ([CHR ''b'', CHR 0x27] @ b64encode m @ [CHR 0x27])) h
      \<noteq> notify d ''binary'' (PyStr (b64encode m)) h"
    using notify_payload_inj wrapped_differs by blast
  then show ?thesis using eq by simp
qed

theorem binary_payload_is_bytes_repr_witness:
  "b64encode ''hello'' = ''aGVsbG8=''
   \<and> emitted h_dc1 (on_message (Some ''dc1'') (PyBytes ''hello'') h_dc1)
     = [\<lparr>nt_target = Some ''dc1'', nt_event = ''binary'',
         nt_data = PyStr ([CHR ''b'', CHR 0x27] @ ''aGVsbG8='' @ [CHR 0x27])\<rparr>]
   \<and> emitted h_dc1 (on_message (Some ''dc1'') (PyStr ''hello'') h_dc1)
     = [\<lparr>nt_target = Some ''dc1'', nt_event = ''message'', nt_data = PyStr ''hello''\<rparr>]"
proof -
  have b64: "b64encode ''hello'' = ''aGVsbG8=''"
    by (simp add: b64char_def b64alphabet_def Let_def)
  note inst = binary_payload_is_bytes_repr
    [where d = "Some ''dc1''" and m = "''hello''" and h = h_dc1 and s = "''hello''"]
  from inst have bin: "on_message (Some ''dc1'') (PyBytes ''hello'') h_dc1
      = notify (Some ''dc1'') ''binary'' (PyStr ([CHR ''b'', CHR 0x27] @ ''aGVsbG8='' @ [CHR 0x27])) h_dc1"
    unfolding b64 by (rule conjunct1)
  show ?thesis
    unfolding bin by (simp add: b64 emitted_def del: b64encode.simps)
qed

text \<open>
  C9. \<^verbatim>\<open>handler.createDataChannel\<close> calls the engine with \<^verbatim>\<open>negotiated=True\<close> and with the
  values \<^verbatim>\<open>data.get\<close> reads for \<open>ordered\<close>, \<open>maxPacketLifeTime\<close>, \<open>maxRetransmits\<close>,
  \<open>label\<close> and \<open>protocol\<close> (\<^verbatim>\<open>None\<close> for a field the request leaves out). When the engine
  creates the channel with these five attributes as given, the request returns the
  channel's descriptor and the five fields of the descriptor are the values of the
  request.
\<close>

theorem createDataChannel_round_trip:
  assumes m: "req_method r = ''handler.createDataChannel''"
    and kwargs: "createDataChannel_kwargs (req_data r) = Inr kwargs"
    and call: "pc_createDataChannel E kwargs (pc h) = (e1, Inr c)"
    and acc: "accepted_unmodified (dc_attrs E e1 c) kwargs"
  shows "opt_negotiated kwargs
      \<and> snd (processRequest E h r) = Inr (RDict (descriptor (dc_attrs E e1 c)))
      \<and> map_of (descriptor (dc_attrs E e1 c)) ''ordered'' = Some (opt_ordered kwargs)
      \<and> py_get (req_data r) ''ordered'' = Inr (opt_ordered kwargs)
      \<and> map_of (descriptor (dc_attrs E e1 c)) ''maxPacketLifeTime'' = Some (opt_maxPacketLifeTime kwargs)
      \<and> py_get (req_data r) ''maxPacketLifeTime'' = Inr (opt_maxPacketLifeTime kwargs)
      \<and> map_of (descriptor (dc_attrs E e1 c)) ''maxRetransmits'' = Some (opt_maxRetransmits kwargs)
      \<and> py_get (req_data r) ''maxRetransmits'' = Inr (opt_maxRetransmits kwargs)
      \<and> map_of (descriptor (dc_attrs E e1 c)) ''label'' = Some (opt_label kwargs)
      \<and> py_get (req_data r) ''label'' = Inr (opt_label kwargs)
      \<and> map_of (descriptor (dc_attrs E e1 c)) ''protocol'' = Some (opt_protocol kwargs)
      \<and> py_get (req_data r) ''protocol'' = Inr (opt_protocol kwargs)"
proof -
  from kwargs_Dict [OF kwargs] obtain kw where d: "req_data r = Dict kw" by blast
  have k: "kwargs = \<lparr>opt_negotiated = True,
       opt_id = (case map_of kw ''id'' of None \<Rightarrow> PyNone | Some v \<Rightarrow> v),
       opt_ordered = (case map_of kw ''ordered'' of None \<Rightarrow> PyNone | Some v \<Rightarrow> v),
       opt_maxPacketLifeTime = (case map_of kw ''maxPacketLifeTime'' of None \<Rightarrow> PyNone | Some v \<Rightarrow> v),
       opt_maxRetransmits = (case map_of kw ''maxRetransmits'' of None \<Rightarrow> PyNone | Some v \<Rightarrow> v),
       opt_label = (case map_of kw ''label'' of None \<Rightarrow> PyNone | Some v \<Rightarrow> v),
       opt_protocol = (case map_of kw ''protocol'' of None \<Rightarrow> PyNone | Some v \<Rightarrow> v)\<rparr>"
    using kwargs by (simp add: d createDataChannel_kwargs_def)
  have res: "snd (processRequest E h r) = Inr (RDict (descriptor (dc_attrs E e1 c)))"
    using m kwargs call by (simp add: processRequest_def req_createDataChannel_def Let_def)
  have fields: "map_of (descriptor ch) ''ordered'' = Some (ch_ordered ch)"
    "map_of (descriptor ch) ''maxPacketLifeTime'' = Some (ch_maxPacketLifeTime ch)"
    "map_of (descriptor ch) ''maxRetransmits'' = Some (ch_maxRetransmits ch)"
    "map_of (descriptor ch) ''label'' = Some (ch_label ch)"
    "map_of (descriptor ch) ''protocol'' = Some (ch_protocol ch)" for ch
    by (simp_all add: descriptor_def)
  have gets: "py_get (req_data r) ''ordered'' = Inr (opt_ordered kwargs)"
    "py_get (req_data r) ''maxPacketLifeTime'' = Inr (opt_maxPacketLifeTime kwargs)"
    "py_get (req_data r) ''maxRetransmits'' = Inr (opt_maxRetransmits kwargs)"
    "py_get (req_data r) ''label'' = Inr (opt_label kwargs)"
    "py_get (req_data r) ''protocol'' = Inr (opt_protocol kwargs)"
    by (simp_all add: d k)
  have neg: "opt_negotiated kwargs" by (simp add: k)
  show ?thesis
    using acc unfolding accepted_unmodified_def
    by (simp add: neg res fields gets)
qed

lemma create_dc1_kwargs:
  "createDataChannel_kwargs (req_data create_dc1) =
     Inr \<lparr>opt_negotiated = True, opt_id = PyInt 1, opt_ordered = PyBool True,
          opt_maxPacketLifeTime = PyNone, opt_maxRetransmits = PyNone,
          opt_label = PyStr ''chat'', opt_protocol = PyNone\<rparr>"
  by (simp add: create_dc1_def createDataChannel_kwargs_def)

theorem createDataChannel_round_trip_witness:
  "snd (processRequest sim_env h0 create_dc1) =
     Inr (RDict [(''streamId'', PyInt 1), (''ordered'', PyBool True),
                 (''maxPacketLifeTime'', PyNone), (''maxRetransmits'', PyNone),
                 (''label'', PyStr ''chat''), (''protocol'', PyNone),
                 (''readyState'', PyStr ''connecting''), (''bufferedAmount'', PyInt 0),
                 (''bufferedAmountLowThreshold'', PyInt 0)])
   \<and> py_get (req_data create_dc1) ''ordered'' = Inr (PyBool True)
   \<and> py_get (req_data create_dc1) ''label'' = Inr (PyStr ''chat'')
   \<and> py_get (req_data create_dc1) ''protocol'' = Inr PyNone
   \<and> map (opt_negotiated) (sim_options (pc (fst (processRequest sim_env h0 create_dc1)))) = [True]"
proof -
  let ?kw = "\<lparr>opt_negotiated = True, opt_id = PyInt 1, opt_ordered = PyBool True,
          opt_maxPacketLifeTime = PyNone, opt_maxRetransmits = PyNone,
          opt_label = PyStr ''chat'', opt_protocol = PyNone\<rparr>"
  let ?e1 = "fst (sim_createDataChannel ?kw sim0)"
  have m: "req_method create_dc1 = ''handler.createDataChannel''"
    by (simp add: create_dc1_def)
  have call: "pc_createDataChannel sim_env ?kw (pc h0) = (?e1, Inr 0)"
    by (simp add: sim_env_simps sim_createDataChannel_def h0_def Handler_init_def sim0_def)
  have attrs: "dc_attrs sim_env ?e1 0 =
      \<lparr>ch_id = PyInt 1, ch_ordered = PyBool True, ch_maxPacketLifeTime = PyNone,
       ch_maxRetransmits = PyNone, ch_label = PyStr ''chat'', ch_protocol = PyNone,
       ch_readyState = PyStr ''connecting'', ch_bufferedAmount = PyInt 0,
       ch_bufferedAmountLowThreshold = PyInt 0\<rparr>"
    by (simp add: sim_env_simps sim_createDataChannel_def sim_attrs_def sim0_def)
  have acc: "accepted_unmodified (dc_attrs sim_env ?e1 0) ?kw"
    by (simp add: attrs accepted_unmodified_def)
  have opts: "map (opt_negotiated) (sim_options (pc (fst (processRequest sim_env h0 create_dc1)))) = [True]"
    using m call
    by (simp add: processRequest_def req_createDataChannel_def create_dc1_kwargs Let_def
        sim_createDataChannel_def sim0_def)
  show ?thesis
    using createDataChannel_round_trip [OF m create_dc1_kwargs call acc] opts
    by (simp add: attrs descriptor_def)
qed



end
